theory Spec2Isabelle
  imports Main "HOL-Library.Word" "HOL-Library.Log_Nat" "HOL-Library.Monad_Syntax"
begin

section \<open>Basic types of mini\_al's data conversion pipeline\<close>

text \<open>
  The model follows \<^verbatim>\<open>mini_al.h\<close>.  C structs are records, enums are datatypes,
  \<^verbatim>\<open>mal_uint32\<close> fields of configuration structs are \<open>32 word\<close>, a \<^verbatim>\<open>mal_channel\<close>
  (a \<^verbatim>\<open>mal_uint8\<close>) is an \<open>8 word\<close>.  A function returning \<^verbatim>\<open>mal_result\<close> and filling
  an object through a pointer returns \<open>mal_error + object\<close>: \<open>Inr\<close> is \<^verbatim>\<open>MAL_SUCCESS\<close>
  with the initialised object, \<open>Inl\<close> carries the error code.  A pointer that the code
  tests against \<^verbatim>\<open>NULL\<close> is an \<open>option\<close> (or, for the output object, a flag saying
  that the pointer is not \<^verbatim>\<open>NULL\<close>).  Function pointers are values of a type parameter
  \<open>'cb\<close>; \<open>None\<close> is the \<^verbatim>\<open>NULL\<close> callback.  The SIMD switches select between
  implementations of the same arithmetic and are left out of the records.
\<close>

datatype mal_error =
    MAL_ERROR
  | MAL_INVALID_ARGS
  | MAL_INVALID_OPERATION
  | MAL_OUT_OF_MEMORY
  | MAL_FORMAT_NOT_SUPPORTED

type_synonym mal_uint32 = "32 word"
type_synonym mal_channel = "8 word"

definition MAL_CHANNEL_NONE :: mal_channel where "MAL_CHANNEL_NONE = 0"
definition MAL_CHANNEL_MONO :: mal_channel where "MAL_CHANNEL_MONO = 1"
definition MAL_CHANNEL_FRONT_LEFT :: mal_channel where "MAL_CHANNEL_FRONT_LEFT = 2"
definition MAL_CHANNEL_FRONT_RIGHT :: mal_channel where "MAL_CHANNEL_FRONT_RIGHT = 3"
definition MAL_CHANNEL_FRONT_CENTER :: mal_channel where "MAL_CHANNEL_FRONT_CENTER = 4"
definition MAL_CHANNEL_LFE :: mal_channel where "MAL_CHANNEL_LFE = 5"

definition MAL_MAX_CHANNELS :: nat where "MAL_MAX_CHANNELS = 32"
definition MAL_SRC_SINC_MIN_WINDOW_WIDTH :: nat where "MAL_SRC_SINC_MIN_WINDOW_WIDTH = 2"
definition MAL_SRC_SINC_MAX_WINDOW_WIDTH :: nat where "MAL_SRC_SINC_MAX_WINDOW_WIDTH = 32"
definition MAL_SRC_SINC_DEFAULT_WINDOW_WIDTH :: nat where "MAL_SRC_SINC_DEFAULT_WINDOW_WIDTH = 32"
definition MAL_SRC_SINC_LOOKUP_TABLE_RESOLUTION :: nat where
  "MAL_SRC_SINC_LOOKUP_TABLE_RESOLUTION = 8"
definition MAL_SRC_INPUT_BUFFER_SIZE_IN_SAMPLES :: nat where
  "MAL_SRC_INPUT_BUFFER_SIZE_IN_SAMPLES = 256"

datatype mal_format =
    mal_format_unknown
  | mal_format_u8
  | mal_format_s16
  | mal_format_s24
  | mal_format_s32
  | mal_format_f32

datatype mal_dither_mode =
    mal_dither_mode_none
  | mal_dither_mode_rectangle
  | mal_dither_mode_triangle

datatype mal_channel_mix_mode =
    mal_channel_mix_mode_planar_blend
  | mal_channel_mix_mode_simple

datatype mal_src_algorithm =
    mal_src_algorithm_sinc
  | mal_src_algorithm_linear
  | mal_src_algorithm_none

text \<open>
  \<^verbatim>\<open>mal_src_sinc_window_function\<close> is a C enum, so a config can hold an integer that
  names no window function; \<open>mal_src_sinc_window_function_other\<close> stands for those
  values (the \<^verbatim>\<open>default:\<close> branch of the switch in \<^verbatim>\<open>mal_src_init\<close>).
\<close>

datatype mal_src_sinc_window_function =
    mal_src_sinc_window_function_hann
  | mal_src_sinc_window_function_rectangular
  | mal_src_sinc_window_function_other

section \<open>Single precision arithmetic\<close>

text \<open>
  A finite \<^verbatim>\<open>float\<close> or \<^verbatim>\<open>double\<close> is modelled by the rational number it denotes.
  \<open>fp_round p emin x\<close> rounds \<open>x\<close> to the nearest number of a binary format with
  \<open>p\<close> bits of precision and smallest normal exponent \<open>emin\<close>, ties to even (the IEEE 754
  default), with gradual underflow.  Infinities, NaN, the sign of zero and overflow are
  not represented: the model agrees with the C arithmetic as long as every result is
  smaller than \<open>2 ^ 128\<close> in magnitude (\<open>2 ^ 1024\<close> for doubles), every divisor is
  non-zero and expressions are evaluated in their own type (\<^verbatim>\<open>FLT_EVAL_METHOD == 0\<close>).
\<close>

definition fp_exponent :: "rat \<Rightarrow> int" where
  \<comment> \<open>\<open>\<lfloor>log\<^sub>2 \<bar>x\<bar>\<rfloor>\<close> for \<open>x \<noteq> 0\<close>\<close>
  "fp_exponent x =
     (if 1 \<le> \<bar>x\<bar> then bitlen \<lfloor>\<bar>x\<bar>\<rfloor> - 1 else - bitlen (\<lceil>1 / \<bar>x\<bar>\<rceil> - 1))"

definition pow2 :: "int \<Rightarrow> rat" where
  "pow2 k = (if 0 \<le> k then 2 ^ nat k else 1 / 2 ^ nat (- k))"

definition round_half_even :: "rat \<Rightarrow> int" where
  "round_half_even y =
     (let n = \<lfloor>y\<rfloor>; r = y - of_int n
      in if r < 1 / 2 then n else if 1 / 2 < r then n + 1 else if even n then n else n + 1)"

definition fp_round :: "nat \<Rightarrow> int \<Rightarrow> rat \<Rightarrow> rat" where
  "fp_round p emin x =
     (if x = 0 then 0
      else let e = max (fp_exponent x) emin; q = pow2 (e - int p + 1)
           in of_int (round_half_even (x / q)) * q)"

definition f32 :: "rat \<Rightarrow> rat" where "f32 = fp_round 24 (- 126)"
definition f64 :: "rat \<Rightarrow> rat" where "f64 = fp_round 53 (- 1022)"

definition f32_add :: "rat \<Rightarrow> rat \<Rightarrow> rat" where "f32_add x y = f32 (x + y)"
definition f32_sub :: "rat \<Rightarrow> rat \<Rightarrow> rat" where "f32_sub x y = f32 (x - y)"
definition f32_mul :: "rat \<Rightarrow> rat \<Rightarrow> rat" where "f32_mul x y = f32 (x * y)"

text \<open>Division is undefined in the model when the divisor is zero.\<close>

definition f32_div :: "rat \<Rightarrow> rat \<Rightarrow> rat option" where
  "f32_div x y = (if y = 0 then None else Some (f32 (x / y)))"

text \<open>Conversion of an unsigned integer to \<^verbatim>\<open>float\<close>.\<close>

definition f32_of_nat :: "nat \<Rightarrow> rat" where "f32_of_nat n = f32 (of_nat n)"

definition f32_of_uint32 :: "32 word \<Rightarrow> rat" where "f32_of_uint32 w = f32 (of_int (uint w))"

text \<open>The value of a \<^verbatim>\<open>mal_uint32\<close> expression whose mathematical value is \<open>n\<close>.\<close>

definition uint32_wrap :: "nat \<Rightarrow> nat" where
  "uint32_wrap n = nat (int n mod 4294967296)"

text \<open>
  The casts \<^verbatim>\<open>(mal_uint32)x\<close>, \<^verbatim>\<open>(mal_uint8)x\<close> and \<^verbatim>\<open>(mal_int32)x\<close> of a float truncate
  towards zero; C leaves the conversion undefined when the truncated value does not fit
  the integer type, which is \<open>None\<close> here.
\<close>

definition c_trunc :: "rat \<Rightarrow> int" where
  "c_trunc x = (if 0 \<le> x then \<lfloor>x\<rfloor> else \<lceil>x\<rceil>)"

definition f32_to_uint32 :: "rat \<Rightarrow> nat option" where
  "f32_to_uint32 x = (if 0 \<le> c_trunc x \<and> c_trunc x < 2 ^ 32 then Some (nat (c_trunc x)) else None)"

definition f32_to_uint8 :: "rat \<Rightarrow> 8 word option" where
  "f32_to_uint8 x = (if 0 \<le> c_trunc x \<and> c_trunc x < 2 ^ 8 then Some (of_int (c_trunc x)) else None)"

definition f32_to_int32 :: "rat \<Rightarrow> int option" where
  "f32_to_int32 x =
     (if - (2 ^ 31) \<le> c_trunc x \<and> c_trunc x < 2 ^ 31 then Some (c_trunc x) else None)"

definition mal_mix_f32_fast :: "rat \<Rightarrow> rat \<Rightarrow> rat \<Rightarrow> rat" where
  "mal_mix_f32_fast x y a = (let r0 = f32_sub y x; r1 = f32_mul r0 a in f32_add x r1)"

section \<open>Channel maps\<close>

text \<open>
  A channel map is the array \<^verbatim>\<open>mal_channel channelMap[MAL_MAX_CHANNELS]\<close>, here a list.
  The loops \<^verbatim>\<open>for (iChannel = 0; iChannel < channels; ++iChannel)\<close> that return at
  the first hit are \<open>list_ex\<close>/\<open>list_all\<close> over the indices \<open>[0..<channels]\<close>.
\<close>

definition mal_channel_map_valid :: "mal_uint32 \<Rightarrow> mal_channel list option \<Rightarrow> bool" where
  "mal_channel_map_valid channels pChannelMap =
     (case pChannelMap of
        None \<Rightarrow> False
      | Some channelMap \<Rightarrow>
          if channels = 0 then False
          else if 1 < channels \<and>
                  list_ex (\<lambda>iChannel. channelMap ! iChannel = MAL_CHANNEL_MONO) [0..<unat channels]
          then False
          else True)"

text \<open>
  \<^verbatim>\<open>mal_channel_map_equal\<close> first compares the two pointers and answers \<^verbatim>\<open>MAL_FALSE\<close>
  when they are the same array; \<open>samePointer\<close> is that comparison.
\<close>

definition mal_channel_map_equal ::
  "bool \<Rightarrow> mal_uint32 \<Rightarrow> mal_channel list \<Rightarrow> mal_channel list \<Rightarrow> bool" where
  "mal_channel_map_equal samePointer channels channelMapA channelMapB =
     (if samePointer then False
      else if channels = 0 \<or> MAL_MAX_CHANNELS < unat channels then False
      else list_all (\<lambda>iChannel. channelMapA ! iChannel = channelMapB ! iChannel)
             [0..<unat channels])"

definition mal_channel_map_blank :: "mal_uint32 \<Rightarrow> mal_channel list \<Rightarrow> bool" where
  "mal_channel_map_blank channels channelMap =
     list_all (\<lambda>iChannel. channelMap ! iChannel = MAL_CHANNEL_NONE) [0..<unat channels]"

definition mal_channel_map_contains_channel_position ::
  "mal_uint32 \<Rightarrow> mal_channel list \<Rightarrow> mal_channel \<Rightarrow> bool" where
  "mal_channel_map_contains_channel_position channels channelMap channelPosition =
     list_ex (\<lambda>iChannel. channelMap ! iChannel = channelPosition) [0..<unat channels]"

section \<open>Format converter: initialisation\<close>

record 'cb mal_format_converter_config =
  fc_formatIn :: mal_format
  fc_formatOut :: mal_format
  fc_channels :: mal_uint32
  fc_ditherMode :: mal_dither_mode
  fc_onRead :: "'cb option"
  fc_onReadDeinterleaved :: "'cb option"

text \<open>
  \<^verbatim>\<open>onInterleavePCM\<close>/\<open>onDeinterleavePCM\<close> are chosen by the switch on \<^verbatim>\<open>formatOut\<close>,
  whose \<^verbatim>\<open>default:\<close> shares the \<^verbatim>\<open>mal_format_f32\<close> branch; the field below records the
  format whose routines were installed.
\<close>

record 'cb mal_format_converter =
  fc_config :: "'cb mal_format_converter_config"
  fc_interleaveFormat :: mal_format

definition mal_format_converter_config_init_new :: "'cb mal_format_converter_config" where
  "mal_format_converter_config_init_new =
     \<lparr> fc_formatIn = mal_format_unknown, fc_formatOut = mal_format_unknown, fc_channels = 0,
       fc_ditherMode = mal_dither_mode_none, fc_onRead = None, fc_onReadDeinterleaved = None \<rparr>"

definition mal_format_converter_config_init ::
  "mal_format \<Rightarrow> mal_format \<Rightarrow> mal_uint32 \<Rightarrow> 'cb option \<Rightarrow> 'cb mal_format_converter_config" where
  "mal_format_converter_config_init formatIn formatOut channels onRead =
     mal_format_converter_config_init_new
       \<lparr> fc_formatIn := formatIn, fc_formatOut := formatOut, fc_channels := channels,
         fc_onRead := onRead, fc_onReadDeinterleaved := None \<rparr>"

definition mal_format_converter_init ::
  "'cb mal_format_converter_config option \<Rightarrow> bool \<Rightarrow> mal_error + 'cb mal_format_converter" where
  "mal_format_converter_init pConfig pConverter_not_null =
     (if \<not> pConverter_not_null then Inl MAL_INVALID_ARGS
      else case pConfig of
        None \<Rightarrow> Inl MAL_INVALID_ARGS
      | Some config \<Rightarrow>
          Inr \<lparr> fc_config = config,
                fc_interleaveFormat =
                  (case fc_formatOut config of
                     mal_format_u8 \<Rightarrow> mal_format_u8
                   | mal_format_s16 \<Rightarrow> mal_format_s16
                   | mal_format_s24 \<Rightarrow> mal_format_s24
                   | mal_format_s32 \<Rightarrow> mal_format_s32
                   | _ \<Rightarrow> mal_format_f32) \<rparr>)"

section \<open>Sample rate converter: initialisation and rate changes\<close>

record mal_src_config_sinc =
  sinc_windowFunction :: mal_src_sinc_window_function
  sinc_windowWidth :: mal_uint32

record 'cb mal_src_config =
  src_sampleRateIn :: mal_uint32
  src_sampleRateOut :: mal_uint32
  src_channels :: mal_uint32
  src_algorithm :: mal_src_algorithm
  src_neverConsumeEndOfInput :: bool
  src_onReadDeinterleaved :: "'cb option"
  src_sinc :: mal_src_config_sinc

text \<open>
  The state of a \<^verbatim>\<open>mal_src\<close>.  \<open>src_linear_input channel i\<close> is
  \<^verbatim>\<open>linear.input[channel][i]\<close>.  \<^verbatim>\<open>float\<close> values are rationals (see the section on
  single precision arithmetic).  The entries of the sinc lookup table come from the C
  library's \<^verbatim>\<open>sin\<close> and \<^verbatim>\<open>cos\<close>; the record keeps the window function whose table was
  built, not the entries.
\<close>

record 'cb mal_src =
  src_config :: "'cb mal_src_config"
  src_linear_input :: "nat \<Rightarrow> nat \<Rightarrow> rat"
  src_linear_timeIn :: rat
  src_linear_leftoverFrames :: nat
  src_sinc_table_built :: "mal_src_sinc_window_function option"
  src_isEndOfInputLoaded :: bool

definition mal_src_config_init_new :: "'cb mal_src_config" where
  "mal_src_config_init_new =
     \<lparr> src_sampleRateIn = 0, src_sampleRateOut = 0, src_channels = 0,
       src_algorithm = mal_src_algorithm_sinc, src_neverConsumeEndOfInput = False,
       src_onReadDeinterleaved = None,
       src_sinc = \<lparr> sinc_windowFunction = mal_src_sinc_window_function_hann,
                    sinc_windowWidth = 0 \<rparr> \<rparr>"

definition mal_src_config_init ::
  "mal_uint32 \<Rightarrow> mal_uint32 \<Rightarrow> mal_uint32 \<Rightarrow> 'cb option \<Rightarrow> 'cb mal_src_config" where
  "mal_src_config_init sampleRateIn sampleRateOut channels onReadDeinterleaved =
     mal_src_config_init_new
       \<lparr> src_sampleRateIn := sampleRateIn, src_sampleRateOut := sampleRateOut,
         src_channels := channels, src_onReadDeinterleaved := onReadDeinterleaved \<rparr>"

text \<open>The three successive adjustments of \<^verbatim>\<open>sinc.windowWidth\<close> in \<^verbatim>\<open>mal_src_init\<close>.\<close>

definition mal_src_init_windowWidth :: "mal_uint32 \<Rightarrow> mal_uint32" where
  "mal_src_init_windowWidth w0 =
     (let w1 = (if w0 = 0 then of_nat MAL_SRC_SINC_DEFAULT_WINDOW_WIDTH else w0);
          w2 = (if w1 < of_nat MAL_SRC_SINC_MIN_WINDOW_WIDTH
                then of_nat MAL_SRC_SINC_MIN_WINDOW_WIDTH else w1);
          w3 = (if of_nat MAL_SRC_SINC_MAX_WINDOW_WIDTH < w2
                then of_nat MAL_SRC_SINC_MAX_WINDOW_WIDTH else w2)
      in w3)"

definition mal_src_init :: "'cb mal_src_config option \<Rightarrow> bool \<Rightarrow> mal_error + 'cb mal_src" where
  "mal_src_init pConfig pSRC_not_null =
     (if \<not> pSRC_not_null then Inl MAL_INVALID_ARGS
      else case pConfig of
        None \<Rightarrow> Inl MAL_INVALID_ARGS
      | Some config \<Rightarrow>
          if src_onReadDeinterleaved config = None then Inl MAL_INVALID_ARGS
          else if src_channels config = 0 \<or> MAL_MAX_CHANNELS < unat (src_channels config)
          then Inl MAL_INVALID_ARGS
          else
            let zeroed = \<lparr> src_config = config, src_linear_input = (\<lambda>c i. 0),
                           src_linear_timeIn = 0, src_linear_leftoverFrames = 0,
                           src_sinc_table_built = None, src_isEndOfInputLoaded = False \<rparr>
            in if src_algorithm config = mal_src_algorithm_sinc then
                 let sinc' = (src_sinc config)
                       \<lparr> sinc_windowWidth :=
                           mal_src_init_windowWidth (sinc_windowWidth (src_sinc config)) \<rparr>;
                     pSRC = zeroed \<lparr> src_config := config \<lparr> src_sinc := sinc' \<rparr> \<rparr>
                 in case sinc_windowFunction sinc' of
                      mal_src_sinc_window_function_hann \<Rightarrow>
                        Inr (pSRC \<lparr> src_sinc_table_built :=
                                     Some mal_src_sinc_window_function_hann \<rparr>)
                    | mal_src_sinc_window_function_rectangular \<Rightarrow>
                        Inr (pSRC \<lparr> src_sinc_table_built :=
                                     Some mal_src_sinc_window_function_rectangular \<rparr>)
                    | mal_src_sinc_window_function_other \<Rightarrow> Inl MAL_INVALID_ARGS
               else Inr zeroed)"

text \<open>
  The setters; the \<open>option\<close> argument is \<^verbatim>\<open>pSRC\<close>.  On an error the object is not
  touched, so the result carries no new state.
\<close>

definition mal_src_set_input_sample_rate ::
  "'cb mal_src option \<Rightarrow> mal_uint32 \<Rightarrow> mal_error + 'cb mal_src" where
  "mal_src_set_input_sample_rate pSRC sampleRateIn =
     (case pSRC of
        None \<Rightarrow> Inl MAL_INVALID_ARGS
      | Some s \<Rightarrow>
          if sampleRateIn = 0 then Inl MAL_INVALID_ARGS
          else Inr (s \<lparr> src_config := (src_config s) \<lparr> src_sampleRateIn := sampleRateIn \<rparr> \<rparr>))"

definition mal_src_set_output_sample_rate ::
  "'cb mal_src option \<Rightarrow> mal_uint32 \<Rightarrow> mal_error + 'cb mal_src" where
  "mal_src_set_output_sample_rate pSRC sampleRateOut =
     (case pSRC of
        None \<Rightarrow> Inl MAL_INVALID_ARGS
      | Some s \<Rightarrow>
          if sampleRateOut = 0 then Inl MAL_INVALID_ARGS
          else Inr (s \<lparr> src_config := (src_config s) \<lparr> src_sampleRateOut := sampleRateOut \<rparr> \<rparr>))"

definition mal_src_set_sample_rate ::
  "'cb mal_src option \<Rightarrow> mal_uint32 \<Rightarrow> mal_uint32 \<Rightarrow> mal_error + 'cb mal_src" where
  "mal_src_set_sample_rate pSRC sampleRateIn sampleRateOut =
     (case pSRC of
        None \<Rightarrow> Inl MAL_INVALID_ARGS
      | Some s \<Rightarrow>
          if sampleRateIn = 0 \<or> sampleRateOut = 0 then Inl MAL_INVALID_ARGS
          else Inr (s \<lparr> src_config := (src_config s)
                         \<lparr> src_sampleRateIn := sampleRateIn,
                           src_sampleRateOut := sampleRateOut \<rparr> \<rparr>))"

section \<open>Channel router: initialisation\<close>

record 'cb mal_channel_router_config =
  cr_channelsIn :: mal_uint32
  cr_channelsOut :: mal_uint32
  cr_channelMapIn :: "mal_channel list"
  cr_channelMapOut :: "mal_channel list"
  cr_mixingMode :: mal_channel_mix_mode
  cr_onReadDeinterleaved :: "'cb option"

text \<open>
  \<open>cr_weights r iChannelIn iChannelOut\<close> is \<^verbatim>\<open>weights[iChannelIn][iChannelOut]\<close> and
  \<open>cr_shuffleTable r iChannelIn\<close> is \<^verbatim>\<open>shuffleTable[iChannelIn]\<close>.
\<close>

record 'cb mal_channel_router =
  cr_config :: "'cb mal_channel_router_config"
  cr_isPassthrough :: bool
  cr_isSimpleShuffle :: bool
  cr_shuffleTable :: "nat \<Rightarrow> 8 word"
  cr_weights :: "nat \<Rightarrow> nat \<Rightarrow> rat"

definition mal_channel_router_config_init ::
  "mal_uint32 \<Rightarrow> mal_channel list \<Rightarrow> mal_uint32 \<Rightarrow> mal_channel list \<Rightarrow> mal_channel_mix_mode \<Rightarrow>
   'cb option \<Rightarrow> 'cb mal_channel_router_config" where
  "mal_channel_router_config_init channelsIn channelMapIn channelsOut channelMapOut mixingMode
     onRead =
     \<lparr> cr_channelsIn = channelsIn, cr_channelsOut = channelsOut,
       cr_channelMapIn =
         map (\<lambda>iChannel. if iChannel < unat channelsIn then channelMapIn ! iChannel
                          else MAL_CHANNEL_NONE) [0..<MAL_MAX_CHANNELS],
       cr_channelMapOut =
         map (\<lambda>iChannel. if iChannel < unat channelsOut then channelMapOut ! iChannel
                          else MAL_CHANNEL_NONE) [0..<MAL_MAX_CHANNELS],
       cr_mixingMode = mixingMode, cr_onReadDeinterleaved = onRead \<rparr>"

text \<open>
  \<^verbatim>\<open>g_malChannelPlaneRatios\<close>: one row of six plane ratios for each of the 52 channel
  positions; the rows of \<^verbatim>\<open>MAL_CHANNEL_AUX_0\<close> to \<^verbatim>\<open>MAL_CHANNEL_AUX_31\<close> are zero.
\<close>

definition g_malChannelPlaneRatios :: "rat list list" where
  "g_malChannelPlaneRatios =
     [ [0, 0, 0, 0, 0, 0],
       [0, 0, 0, 0, 0, 0],
       [1 / 2, 0, 1 / 2, 0, 0, 0],
       [0, 1 / 2, 1 / 2, 0, 0, 0],
       [0, 0, 1, 0, 0, 0],
       [0, 0, 0, 0, 0, 0],
       [1 / 2, 0, 0, 1 / 2, 0, 0],
       [0, 1 / 2, 0, 1 / 2, 0, 0],
       [1 / 4, 0, 3 / 4, 0, 0, 0],
       [0, 1 / 4, 3 / 4, 0, 0, 0],
       [0, 0, 0, 1, 0, 0],
       [1, 0, 0, 0, 0, 0],
       [0, 1, 0, 0, 0, 0],
       [0, 0, 0, 0, 0, 1],
       [f32 (33 / 100), 0, f32 (33 / 100), 0, 0, f32 (34 / 100)],
       [0, 0, 1 / 2, 0, 0, 1 / 2],
       [0, f32 (33 / 100), f32 (33 / 100), 0, 0, f32 (34 / 100)],
       [f32 (33 / 100), 0, 0, f32 (33 / 100), 0, f32 (34 / 100)],
       [0, 0, 0, 1 / 2, 0, 1 / 2],
       [0, f32 (33 / 100), 0, f32 (33 / 100), 0, f32 (34 / 100)] ]
     @ replicate 32 [0, 0, 0, 0, 0, 0]"

definition mal_calculate_channel_position_planar_weight :: "mal_channel \<Rightarrow> mal_channel \<Rightarrow> rat" where
  "mal_calculate_channel_position_planar_weight channelPositionA channelPositionB =
     (let a = g_malChannelPlaneRatios ! unat channelPositionA;
          b = g_malChannelPlaneRatios ! unat channelPositionB
      in f32_add (f32_add (f32_add (f32_add (f32_add
           (f32_mul (a ! 0) (b ! 0))
           (f32_mul (a ! 1) (b ! 1)))
           (f32_mul (a ! 2) (b ! 2)))
           (f32_mul (a ! 3) (b ! 3)))
           (f32_mul (a ! 4) (b ! 4)))
           (f32_mul (a ! 5) (b ! 5)))"

definition mal_channel_router__is_spatial_channel_position :: "mal_channel \<Rightarrow> bool" where
  "mal_channel_router__is_spatial_channel_position channelPosition =
     (if channelPosition = MAL_CHANNEL_NONE \<or> channelPosition = MAL_CHANNEL_MONO \<or>
         channelPosition = MAL_CHANNEL_LFE
      then False
      else list_ex (\<lambda>i. g_malChannelPlaneRatios ! unat channelPosition ! i \<noteq> 0) [0..<6])"

text \<open>The flags \<^verbatim>\<open>isPassthrough\<close> and \<^verbatim>\<open>isSimpleShuffle\<close> and the shuffle table.\<close>

definition router_isPassthrough :: "'cb mal_channel_router_config \<Rightarrow> bool" where
  "router_isPassthrough config =
     (cr_channelsIn config = cr_channelsOut config \<and>
      (mal_channel_map_equal False (cr_channelsIn config)
         (cr_channelMapIn config) (cr_channelMapOut config) \<or>
       mal_channel_map_blank (cr_channelsIn config) (cr_channelMapIn config) \<or>
       mal_channel_map_blank (cr_channelsOut config) (cr_channelMapOut config)))"

definition router_areAllChannelPositionsPresent :: "'cb mal_channel_router_config \<Rightarrow> bool" where
  "router_areAllChannelPositionsPresent config =
     list_all (\<lambda>iChannelIn.
        list_ex (\<lambda>iChannelOut.
           cr_channelMapIn config ! iChannelIn = cr_channelMapOut config ! iChannelOut)
          [0..<unat (cr_channelsOut config)])
       [0..<unat (cr_channelsIn config)]"

definition router_isSimpleShuffle :: "'cb mal_channel_router_config \<Rightarrow> bool" where
  "router_isSimpleShuffle config =
     (\<not> router_isPassthrough config \<and> cr_channelsIn config = cr_channelsOut config \<and>
      router_areAllChannelPositionsPresent config)"

definition router_shuffleTable :: "'cb mal_channel_router_config \<Rightarrow> nat \<Rightarrow> 8 word" where
  "router_shuffleTable config =
     (if router_isSimpleShuffle config then
        fold (\<lambda>iChannelIn table.
                case find (\<lambda>iChannelOut.
                        cr_channelMapIn config ! iChannelIn = cr_channelMapOut config ! iChannelOut)
                       [0..<unat (cr_channelsOut config)] of
                  None \<Rightarrow> table
                | Some iChannelOut \<Rightarrow> table (iChannelIn := of_nat iChannelOut))
          [0..<unat (cr_channelsIn config)] (\<lambda>i. 0)
      else (\<lambda>i. 0))"

text \<open>
  The weights.  Each of the passes of \<^verbatim>\<open>mal_channel_router_init\<close> over the pairs
  \<open>(iChannelIn, iChannelOut)\<close> is a nested \<open>fold\<close> that updates the matrix.
\<close>

definition set_weight :: "(nat \<Rightarrow> nat \<Rightarrow> rat) \<Rightarrow> nat \<Rightarrow> nat \<Rightarrow> rat \<Rightarrow> nat \<Rightarrow> nat \<Rightarrow> rat" where
  "set_weight weights iChannelIn iChannelOut w =
     weights (iChannelIn := (weights iChannelIn) (iChannelOut := w))"

definition is_none_mono_lfe :: "mal_channel \<Rightarrow> bool" where
  "is_none_mono_lfe channelPos =
     (channelPos = MAL_CHANNEL_NONE \<or> channelPos = MAL_CHANNEL_MONO \<or> channelPos = MAL_CHANNEL_LFE)"

definition router_weights_identity ::
  "'cb mal_channel_router_config \<Rightarrow> (nat \<Rightarrow> nat \<Rightarrow> rat) \<Rightarrow> nat \<Rightarrow> nat \<Rightarrow> rat" where
  "router_weights_identity config weights0 =
     fold (\<lambda>iChannelIn. fold (\<lambda>iChannelOut weights.
             if cr_channelMapIn config ! iChannelIn = cr_channelMapOut config ! iChannelOut
             then set_weight weights iChannelIn iChannelOut 1 else weights)
           [0..<unat (cr_channelsOut config)])
       [0..<unat (cr_channelsIn config)] weights0"

definition router_weights_mono_in ::
  "'cb mal_channel_router_config \<Rightarrow> (nat \<Rightarrow> nat \<Rightarrow> rat) \<Rightarrow> nat \<Rightarrow> nat \<Rightarrow> rat" where
  "router_weights_mono_in config weights0 =
     fold (\<lambda>iChannelIn weights.
             if cr_channelMapIn config ! iChannelIn = MAL_CHANNEL_MONO then
               fold (\<lambda>iChannelOut weights.
                       if \<not> is_none_mono_lfe (cr_channelMapOut config ! iChannelOut)
                       then set_weight weights iChannelIn iChannelOut 1 else weights)
                 [0..<unat (cr_channelsOut config)] weights
             else weights)
       [0..<unat (cr_channelsIn config)] weights0"

definition router_weights_mono_out ::
  "'cb mal_channel_router_config \<Rightarrow> (nat \<Rightarrow> nat \<Rightarrow> rat) \<Rightarrow> (nat \<Rightarrow> nat \<Rightarrow> rat) option" where
  "router_weights_mono_out config weights0 =
     (let len = length (filter (\<lambda>iChannelIn. \<not> is_none_mono_lfe (cr_channelMapIn config ! iChannelIn))
                          [0..<unat (cr_channelsIn config)])
      in if 0 < len then
           do {
             monoWeight \<leftarrow> f32_div 1 (f32_of_nat len);
             Some (fold (\<lambda>iChannelOut weights.
                     if cr_channelMapOut config ! iChannelOut = MAL_CHANNEL_MONO then
                       fold (\<lambda>iChannelIn weights.
                               if \<not> is_none_mono_lfe (cr_channelMapIn config ! iChannelIn)
                               then set_weight weights iChannelIn iChannelOut
                                      (f32_add (weights iChannelIn iChannelOut) monoWeight)
                               else weights)
                         [0..<unat (cr_channelsIn config)] weights
                     else weights)
                   [0..<unat (cr_channelsOut config)] weights0)
           }
         else Some weights0)"

definition router_blend_weight :: "'cb mal_channel_router_config \<Rightarrow> mal_channel \<Rightarrow> mal_channel \<Rightarrow> rat" where
  "router_blend_weight config channelPosIn channelPosOut =
     (if cr_mixingMode config = mal_channel_mix_mode_planar_blend
      then mal_calculate_channel_position_planar_weight channelPosIn channelPosOut else 0)"

definition router_weights_unmapped_in ::
  "'cb mal_channel_router_config \<Rightarrow> (nat \<Rightarrow> nat \<Rightarrow> rat) \<Rightarrow> nat \<Rightarrow> nat \<Rightarrow> rat" where
  "router_weights_unmapped_in config weights0 =
     fold (\<lambda>iChannelIn weights.
             let channelPosIn = cr_channelMapIn config ! iChannelIn in
             if mal_channel_router__is_spatial_channel_position channelPosIn \<and>
                \<not> mal_channel_map_contains_channel_position (cr_channelsOut config)
                    (cr_channelMapOut config) channelPosIn
             then
               fold (\<lambda>iChannelOut weights.
                       let channelPosOut = cr_channelMapOut config ! iChannelOut in
                       if mal_channel_router__is_spatial_channel_position channelPosOut \<and>
                          weights iChannelIn iChannelOut = 0
                       then set_weight weights iChannelIn iChannelOut
                              (router_blend_weight config channelPosIn channelPosOut)
                       else weights)
                 [0..<unat (cr_channelsOut config)] weights
             else weights)
       [0..<unat (cr_channelsIn config)] weights0"

definition router_weights_unmapped_out ::
  "'cb mal_channel_router_config \<Rightarrow> (nat \<Rightarrow> nat \<Rightarrow> rat) \<Rightarrow> nat \<Rightarrow> nat \<Rightarrow> rat" where
  "router_weights_unmapped_out config weights0 =
     fold (\<lambda>iChannelOut weights.
             let channelPosOut = cr_channelMapOut config ! iChannelOut in
             if mal_channel_router__is_spatial_channel_position channelPosOut \<and>
                \<not> mal_channel_map_contains_channel_position (cr_channelsIn config)
                    (cr_channelMapIn config) channelPosOut
             then
               fold (\<lambda>iChannelIn weights.
                       let channelPosIn = cr_channelMapIn config ! iChannelIn in
                       if mal_channel_router__is_spatial_channel_position channelPosIn \<and>
                          weights iChannelIn iChannelOut = 0
                       then set_weight weights iChannelIn iChannelOut
                              (router_blend_weight config channelPosIn channelPosOut)
                       else weights)
                 [0..<unat (cr_channelsIn config)] weights
             else weights)
       [0..<unat (cr_channelsOut config)] weights0"

definition router_weights :: "'cb mal_channel_router_config \<Rightarrow> (nat \<Rightarrow> nat \<Rightarrow> rat) option" where
  "router_weights config =
     do {
       weights \<leftarrow> router_weights_mono_out config
                   (router_weights_mono_in config (router_weights_identity config (\<lambda>i j. 0)));
       Some (if cr_mixingMode config \<noteq> mal_channel_mix_mode_simple
             then router_weights_unmapped_out config (router_weights_unmapped_in config weights)
             else weights)
     }"

text \<open>
  \<^verbatim>\<open>mal_channel_router_init\<close>.  The only partial step of the weight computation is the
  division \<^verbatim>\<open>1.0f / len\<close>, made under \<^verbatim>\<open>len > 0\<close>, so \<open>router_weights\<close> is never
  \<open>None\<close>; the zero matrix in that branch keeps the definition total.
\<close>

definition mal_channel_router_init ::
  "'cb mal_channel_router_config option \<Rightarrow> bool \<Rightarrow> mal_error + 'cb mal_channel_router" where
  "mal_channel_router_init pConfig pRouter_not_null =
     (if \<not> pRouter_not_null then Inl MAL_INVALID_ARGS
      else case pConfig of
        None \<Rightarrow> Inl MAL_INVALID_ARGS
      | Some config \<Rightarrow>
          if cr_onReadDeinterleaved config = None then Inl MAL_INVALID_ARGS
          else if \<not> mal_channel_map_valid (cr_channelsIn config) (Some (cr_channelMapIn config))
          then Inl MAL_INVALID_ARGS
          else if \<not> mal_channel_map_valid (cr_channelsOut config) (Some (cr_channelMapOut config))
          then Inl MAL_INVALID_ARGS
          else Inr \<lparr> cr_config = config,
                     cr_isPassthrough = router_isPassthrough config,
                     cr_isSimpleShuffle = router_isSimpleShuffle config,
                     cr_shuffleTable = router_shuffleTable config,
                     cr_weights = (case router_weights config of
                                     Some weights \<Rightarrow> weights | None \<Rightarrow> (\<lambda>i j. 0)) \<rparr>)"

section \<open>Channel router: reading\<close>

text \<open>
  Deinterleaved sample buffers (\<^verbatim>\<open>float** ppSamples\<close>) are functions from the channel
  and the frame index to the sample.  A read callback
  \<^verbatim>\<open>mal_uint32 onReadDeinterleaved(p, frameCount, ppSamplesOut, pUserData)\<close> is a function of
  the state behind \<^verbatim>\<open>pUserData\<close> and of \<^verbatim>\<open>frameCount\<close>; it returns the number of frames
  it produced, the frames (\<open>data c i\<close> is what it stored in \<^verbatim>\<open>ppSamplesOut[c][i]\<close>) and the
  new state.  Callbacks are taken to respect their contract, that is to return at most
  \<^verbatim>\<open>frameCount\<close>.  \<^verbatim>\<open>mal_assert\<close> is compiled out, as in a release build.
\<close>

type_synonym sample_buffers = "nat \<Rightarrow> nat \<Rightarrow> rat"
type_synonym 's read_deinterleaved_proc = "'s \<Rightarrow> nat \<Rightarrow> (nat \<times> sample_buffers) \<times> 's"

definition write_frames :: "sample_buffers \<Rightarrow> nat \<Rightarrow> nat \<Rightarrow> nat \<Rightarrow> (nat \<Rightarrow> rat) \<Rightarrow> sample_buffers" where
  \<comment> \<open>store \<open>src 0, \<dots>, src (n - 1)\<close> in channel \<open>c\<close> from index \<open>off\<close> on\<close>
  "write_frames bufs c off n src =
     bufs (c := (\<lambda>i. if off \<le> i \<and> i < off + n then src (i - off) else bufs c i))"

definition deliver_frames ::
  "sample_buffers \<Rightarrow> (nat \<Rightarrow> nat) \<Rightarrow> nat \<Rightarrow> nat \<Rightarrow> sample_buffers \<Rightarrow> sample_buffers" where
  \<comment> \<open>what a callback that produced \<open>n\<close> frames of \<open>channels\<close> channels leaves in the
      buffers whose channel \<open>c\<close> starts at index \<open>offs c\<close>\<close>
  "deliver_frames bufs offs channels n data =
     fold (\<lambda>c bufs. write_frames bufs c (offs c) n (data c)) [0..<channels] bufs"

definition mal_split_buffer_size :: "nat \<Rightarrow> nat \<Rightarrow> nat \<Rightarrow> nat" where
  \<comment> \<open>\<^verbatim>\<open>*pSplitSizeOut\<close> of \<^verbatim>\<open>mal_split_buffer\<close> for a buffer that is aligned already\<close>
  "mal_split_buffer_size bufferSize splitCount alignment =
     (if bufferSize = 0 \<or> splitCount = 0 then 0
      else let alignment = (if alignment = 0 then 1 else alignment);
               splitSize = bufferSize div splitCount
           in splitSize - splitSize mod alignment)"

definition mal_channel_router__do_routing ::
  "'cb mal_channel_router \<Rightarrow> nat \<Rightarrow> sample_buffers \<Rightarrow> (nat \<Rightarrow> nat) \<Rightarrow> sample_buffers \<Rightarrow>
   sample_buffers" where
  "mal_channel_router__do_routing pRouter frameCount ppSamplesOut offs ppSamplesIn =
     (let channelsIn = unat (cr_channelsIn (cr_config pRouter));
          channelsOut = unat (cr_channelsOut (cr_config pRouter))
      in if cr_isSimpleShuffle pRouter then
           fold (\<lambda>iChannelIn out.
                   let iChannelOut = unat (cr_shuffleTable pRouter iChannelIn)
                   in write_frames out iChannelOut (offs iChannelOut) frameCount
                        (ppSamplesIn iChannelIn))
             [0..<channelsIn] ppSamplesOut
         else
           let cleared = fold (\<lambda>iChannelOut out.
                                 write_frames out iChannelOut (offs iChannelOut) frameCount (\<lambda>i. 0))
                           [0..<channelsOut] ppSamplesOut
           in fold (\<lambda>iChannelIn. fold (\<lambda>iChannelOut out.
                      write_frames out iChannelOut (offs iChannelOut) frameCount
                        (\<lambda>iFrame. f32_add (out iChannelOut (offs iChannelOut + iFrame))
                                     (f32_mul (ppSamplesIn iChannelIn iFrame)
                                        (cr_weights pRouter iChannelIn iChannelOut))))
                    [0..<channelsOut])
                [0..<channelsIn] cleared)"

text \<open>
  The loop of the passthrough branch for \<^verbatim>\<open>frameCount > 0xFFFFFFFF\<close>.  All output
  pointers advance together, so the offset of every channel is \<open>totalFramesRead\<close>.
\<close>

function router_passthrough_loop ::
  "'s read_deinterleaved_proc \<Rightarrow> nat \<Rightarrow> nat \<Rightarrow> nat \<times> sample_buffers \<times> 's \<Rightarrow>
   nat \<times> sample_buffers \<times> 's" where
  "router_passthrough_loop onRead channels frameCount (totalFramesRead, out, st) =
     (if totalFramesRead < frameCount then
        let framesRemaining = frameCount - totalFramesRead;
            framesToReadRightNow = (if 4294967295 < framesRemaining then 4294967295
                                    else framesRemaining)
        in case onRead st framesToReadRightNow of
             ((framesJustRead, data), st') \<Rightarrow>
               if framesJustRead = 0 then (totalFramesRead, out, st')
               else if framesJustRead < framesToReadRightNow
               then (totalFramesRead + framesJustRead,
                     deliver_frames out (\<lambda>c. totalFramesRead) channels framesJustRead data, st')
               else router_passthrough_loop onRead channels frameCount
                      (totalFramesRead + framesJustRead,
                       deliver_frames out (\<lambda>c. totalFramesRead) channels framesJustRead data, st')
      else (totalFramesRead, out, st))"
  by pat_completeness auto
termination
  by (relation "measure (\<lambda>(onRead, channels, frameCount, totalFramesRead, out, st).
                  frameCount - totalFramesRead)") auto

text \<open>
  The loop of the slower path.  \<open>offs c\<close> is the distance of \<^verbatim>\<open>ppNextSamplesOut[c]\<close> from
  \<^verbatim>\<open>ppSamplesOut[c]\<close>; the code advances the pointers of the channels below
  \<^verbatim>\<open>channelsIn\<close>.
\<close>

function router_routing_loop ::
  "'s read_deinterleaved_proc mal_channel_router \<Rightarrow> 's read_deinterleaved_proc \<Rightarrow> nat \<Rightarrow> nat \<Rightarrow>
   nat \<times> (nat \<Rightarrow> nat) \<times> sample_buffers \<times> 's \<Rightarrow> nat \<times> sample_buffers \<times> 's" where
  "router_routing_loop pRouter onRead maxFramesToReadEachIteration frameCount
     (totalFramesRead, offs, out, st) =
     (if totalFramesRead < frameCount then
        let framesRemaining = frameCount - totalFramesRead;
            framesToReadRightNow = (if maxFramesToReadEachIteration < framesRemaining
                                    then maxFramesToReadEachIteration else framesRemaining)
        in case onRead st framesToReadRightNow of
             ((framesJustRead, ppTemp), st') \<Rightarrow>
               if framesJustRead = 0 then (totalFramesRead, out, st')
               else
                 let out' = mal_channel_router__do_routing pRouter framesJustRead out offs ppTemp;
                     total' = totalFramesRead + framesJustRead;
                     offs' = (if total' < frameCount
                              then (\<lambda>c. if c < unat (cr_channelsIn (cr_config pRouter))
                                         then offs c + framesJustRead else offs c)
                              else offs)
                 in if framesJustRead < framesToReadRightNow then (total', out', st')
                    else router_routing_loop pRouter onRead maxFramesToReadEachIteration frameCount
                           (total', offs', out', st')
      else (totalFramesRead, out, st))"
  by pat_completeness auto
termination
  by (relation "measure (\<lambda>(pRouter, onRead, maxFrames, frameCount, totalFramesRead, offs, out, st).
                  frameCount - totalFramesRead)") auto

declare router_passthrough_loop.simps [simp del] router_routing_loop.simps [simp del]

text \<open>
  \<^verbatim>\<open>mal_channel_router_read_deinterleaved\<close>.  The result is the returned frame count, the
  output buffers and the state of the callback.  In the passthrough branch the code
  returns only when \<^verbatim>\<open>frameCount <= 0xFFFFFFFF\<close>; after the loop for larger counts there
  is no \<^verbatim>\<open>return\<close>, and control reaches the slower path, which starts again from
  \<^verbatim>\<open>ppSamplesOut\<close> with a counter of its own.
\<close>

definition mal_channel_router_read_deinterleaved ::
  "'s read_deinterleaved_proc mal_channel_router option \<Rightarrow> nat \<Rightarrow> sample_buffers option \<Rightarrow> 's \<Rightarrow>
   nat \<times> sample_buffers option \<times> 's" where
  "mal_channel_router_read_deinterleaved pRouterOpt frameCount ppSamplesOutOpt st =
     (case (pRouterOpt, ppSamplesOutOpt) of
        (Some pRouter, Some ppSamplesOut) \<Rightarrow>
          let config = cr_config pRouter;
              onRead = the (cr_onReadDeinterleaved config);
              slower = (\<lambda>(out, st).
                 let maxBytesToReadPerFrameEachIteration =
                       mal_split_buffer_size (MAL_MAX_CHANNELS * 256 * 4) (unat (cr_channelsIn config)) 64;
                     maxFramesToReadEachIteration = maxBytesToReadPerFrameEachIteration div 4
                 in case router_routing_loop pRouter onRead maxFramesToReadEachIteration frameCount
                           (0, (\<lambda>c. 0), out, st) of
                      (totalFramesRead, out', st') \<Rightarrow> (totalFramesRead, Some out', st'))
          in if cr_isPassthrough pRouter then
               if frameCount \<le> 4294967295 then
                 case onRead st frameCount of
                   ((framesRead, data), st') \<Rightarrow>
                     (framesRead,
                      Some (deliver_frames ppSamplesOut (\<lambda>c. 0) (unat (cr_channelsOut config))
                              framesRead data),
                      st')
               else
                 case router_passthrough_loop onRead (unat (cr_channelsOut config)) frameCount
                        (0, ppSamplesOut, st) of
                   (totalFramesRead, out, st') \<Rightarrow> slower (out, st')
             else slower (ppSamplesOut, st)
      | _ \<Rightarrow> (0, ppSamplesOutOpt, st))"

text \<open>
  A source that holds a finite recording: \<open>frames ! c\<close> are the samples of channel \<open>c\<close>
  that are left.  A call hands out as many frames as are asked for, or all that are left
  when there are fewer.
\<close>

definition recording_data :: "rat list list \<Rightarrow> nat \<Rightarrow> sample_buffers" where
  "recording_data frames n = (\<lambda>c i. if c < length frames \<and> i < n then frames ! c ! i else 0)"

definition recording_on_read :: "rat list list read_deinterleaved_proc" where
  "recording_on_read frames frameCount =
     (let available = (if frames = [] then 0 else length (hd frames));
          n = min frameCount available
      in ((n, recording_data frames n), map (drop n) frames))"

section \<open>DSP supervisor\<close>

record 'c mal_dsp_config =
  dsp_formatIn :: mal_format
  dsp_channelsIn :: mal_uint32
  dsp_sampleRateIn :: mal_uint32
  dsp_channelMapIn :: "mal_channel list"
  dsp_formatOut :: mal_format
  dsp_channelsOut :: mal_uint32
  dsp_sampleRateOut :: mal_uint32
  dsp_channelMapOut :: "mal_channel list"
  dsp_channelMixMode :: mal_channel_mix_mode
  dsp_ditherMode :: mal_dither_mode
  dsp_srcAlgorithm :: mal_src_algorithm
  dsp_allowDynamicSampleRate :: bool
  dsp_neverConsumeEndOfInput :: bool
  dsp_onRead :: "'c option"
  dsp_sinc :: mal_src_config_sinc

text \<open>
  The callbacks that \<^verbatim>\<open>mal_dsp_init\<close> installs in the stages are the five static
  functions \<^verbatim>\<open>mal_dsp__*_on_read*\<close>; the stage configs hold their names.
\<close>

datatype mal_dsp_callback =
    mal_dsp__pre_format_converter_on_read
  | mal_dsp__post_format_converter_on_read
  | mal_dsp__post_format_converter_on_read_deinterleaved
  | mal_dsp__src_on_read_deinterleaved
  | mal_dsp__channel_router_on_read_deinterleaved

record 'c mal_dsp =
  dsp_client_onRead :: "'c option"
  dsp_formatConverterIn :: "mal_dsp_callback mal_format_converter"
  dsp_formatConverterOut :: "mal_dsp_callback mal_format_converter"
  dsp_channelRouter :: "mal_dsp_callback mal_channel_router"
  dsp_src :: "mal_dsp_callback mal_src"
  dsp_isDynamicSampleRateAllowed :: bool
  dsp_isPreFormatConversionRequired :: bool
  dsp_isPostFormatConversionRequired :: bool
  dsp_isChannelRoutingRequired :: bool
  dsp_isSRCRequired :: bool
  dsp_isChannelRoutingAtStart :: bool
  dsp_isPassthrough :: bool

definition mal_dsp_init :: "'c mal_dsp_config \<Rightarrow> bool \<Rightarrow> mal_error + 'c mal_dsp" where
  "mal_dsp_init pConfig pDSP_not_null =
     (if \<not> pDSP_not_null then Inl MAL_INVALID_ARGS
      else
        let isSRCRequired =
              (dsp_sampleRateIn pConfig \<noteq> dsp_sampleRateOut pConfig \<or>
               dsp_allowDynamicSampleRate pConfig);
            isChannelRoutingRequired =
              (dsp_channelsIn pConfig \<noteq> dsp_channelsOut pConfig \<or>
               \<not> mal_channel_map_equal False (dsp_channelsIn pConfig)
                    (dsp_channelMapIn pConfig) (dsp_channelMapOut pConfig));
            isPreFormatConversionRequired = (isSRCRequired \<or> isChannelRoutingRequired);
            isPostFormatConversionRequired =
              (if \<not> isSRCRequired \<and> \<not> isChannelRoutingRequired
               then dsp_formatIn pConfig \<noteq> dsp_formatOut pConfig else True);
            isPassthrough =
              (\<not> isPreFormatConversionRequired \<and> \<not> isPostFormatConversionRequired \<and>
               \<not> isChannelRoutingRequired \<and> \<not> isSRCRequired);
            isChannelRoutingAtStart = (dsp_channelsOut pConfig < dsp_channelsIn pConfig);
            preFormatConverterConfig =
              (mal_format_converter_config_init (dsp_formatIn pConfig) mal_format_f32
                 (dsp_channelsIn pConfig) (Some mal_dsp__pre_format_converter_on_read))
                \<lparr> fc_ditherMode := dsp_ditherMode pConfig \<rparr>;
            postFormatConverterConfig0 =
              mal_format_converter_config_init_new
                \<lparr> fc_formatIn := dsp_formatIn pConfig, fc_formatOut := dsp_formatOut pConfig,
                  fc_channels := dsp_channelsOut pConfig, fc_ditherMode := dsp_ditherMode pConfig \<rparr>;
            postFormatConverterConfig =
              (if isPreFormatConversionRequired
               then postFormatConverterConfig0
                      \<lparr> fc_onReadDeinterleaved :=
                          Some mal_dsp__post_format_converter_on_read_deinterleaved,
                        fc_formatIn := mal_format_f32 \<rparr>
               else postFormatConverterConfig0
                      \<lparr> fc_onRead := Some mal_dsp__post_format_converter_on_read \<rparr>);
            srcConfig =
              (mal_src_config_init (dsp_sampleRateIn pConfig) (dsp_sampleRateOut pConfig)
                 (if dsp_channelsIn pConfig < dsp_channelsOut pConfig
                  then dsp_channelsIn pConfig else dsp_channelsOut pConfig)
                 (Some mal_dsp__src_on_read_deinterleaved))
                \<lparr> src_algorithm := dsp_srcAlgorithm pConfig,
                  src_neverConsumeEndOfInput := dsp_neverConsumeEndOfInput pConfig,
                  src_sinc := dsp_sinc pConfig \<rparr>;
            routerConfig =
              mal_channel_router_config_init (dsp_channelsIn pConfig) (dsp_channelMapIn pConfig)
                (dsp_channelsOut pConfig) (dsp_channelMapOut pConfig) (dsp_channelMixMode pConfig)
                (Some mal_dsp__channel_router_on_read_deinterleaved)
        in case mal_format_converter_init (Some preFormatConverterConfig) True of
             Inl result \<Rightarrow> Inl result
           | Inr formatConverterIn \<Rightarrow>
        (case mal_format_converter_init (Some postFormatConverterConfig) True of
             Inl result \<Rightarrow> Inl result
           | Inr formatConverterOut \<Rightarrow>
        (case mal_src_init (Some srcConfig) True of
             Inl result \<Rightarrow> Inl result
           | Inr src \<Rightarrow>
        (case mal_channel_router_init (Some routerConfig) True of
             Inl result \<Rightarrow> Inl result
           | Inr channelRouter \<Rightarrow>
               Inr \<lparr> dsp_client_onRead = dsp_onRead pConfig,
                     dsp_formatConverterIn = formatConverterIn,
                     dsp_formatConverterOut = formatConverterOut,
                     dsp_channelRouter = channelRouter,
                     dsp_src = src,
                     dsp_isDynamicSampleRateAllowed = dsp_allowDynamicSampleRate pConfig,
                     dsp_isPreFormatConversionRequired = isPreFormatConversionRequired,
                     dsp_isPostFormatConversionRequired = isPostFormatConversionRequired,
                     dsp_isChannelRoutingRequired = isChannelRoutingRequired,
                     dsp_isSRCRequired = isSRCRequired,
                     dsp_isChannelRoutingAtStart = isChannelRoutingAtStart,
                     dsp_isPassthrough = isPassthrough \<rparr>))))"





section \<open>Sample format conversion: f32 to u8\<close>

text \<open>
  Dither noise comes from the linear congruential generator whose state is the global
  \<^verbatim>\<open>g_malLCG\<close>; the functions below take the state and return the new one.  The product
  \<^verbatim>\<open>MAL_LCG_A * lcg\<close> is formed in \<^verbatim>\<open>int\<close>, where C leaves an overflow undefined; the
  model wraps around, as the compiled code does, and \<^verbatim>\<open>% MAL_LCG_M\<close> followed by the
  conversion to \<^verbatim>\<open>mal_int32\<close> keeps the low 32 bits.
\<close>

definition MAL_LCG_A :: "32 word" where "MAL_LCG_A = 1103515245"
definition MAL_LCG_C :: "32 word" where "MAL_LCG_C = 12345"

definition mal_rand_s32 :: "32 word \<Rightarrow> 32 word \<times> 32 word" where
  "mal_rand_s32 g_malLCG = (let r = MAL_LCG_A * g_malLCG + MAL_LCG_C in (r, r))"

definition mal_rand_f64 :: "32 word \<Rightarrow> rat \<times> 32 word" where
  "mal_rand_f64 g_malLCG =
     (case mal_rand_s32 g_malLCG of
        (r, g) \<Rightarrow> (f64 (of_int (uint (r + 2147483648)) / 2147483647), g))"

definition mal_rand_f32 :: "32 word \<Rightarrow> rat \<times> 32 word" where
  "mal_rand_f32 g_malLCG = (case mal_rand_f64 g_malLCG of (x, g) \<Rightarrow> (f32 x, g))"

definition mal_scale_to_range_f32 :: "rat \<Rightarrow> rat \<Rightarrow> rat \<Rightarrow> rat" where
  "mal_scale_to_range_f32 x lo hi = f32_add lo (f32_mul x (f32_sub hi lo))"

definition mal_rand_range_f32 :: "rat \<Rightarrow> rat \<Rightarrow> 32 word \<Rightarrow> rat \<times> 32 word" where
  "mal_rand_range_f32 lo hi g_malLCG =
     (case mal_rand_f32 g_malLCG of (x, g) \<Rightarrow> (mal_scale_to_range_f32 x lo hi, g))"

definition mal_dither_f32_rectangle :: "rat \<Rightarrow> rat \<Rightarrow> 32 word \<Rightarrow> rat \<times> 32 word" where
  "mal_dither_f32_rectangle ditherMin ditherMax g_malLCG =
     mal_rand_range_f32 ditherMin ditherMax g_malLCG"

definition mal_dither_f32_triangle :: "rat \<Rightarrow> rat \<Rightarrow> 32 word \<Rightarrow> rat \<times> 32 word" where
  "mal_dither_f32_triangle ditherMin ditherMax g_malLCG =
     (case mal_rand_range_f32 ditherMin 0 g_malLCG of
        (a, g1) \<Rightarrow>
          (case mal_rand_range_f32 0 ditherMax g1 of
             (b, g2) \<Rightarrow> (f32_add a b, g2)))"

definition mal_dither_f32 :: "mal_dither_mode \<Rightarrow> rat \<Rightarrow> rat \<Rightarrow> 32 word \<Rightarrow> rat \<times> 32 word" where
  "mal_dither_f32 ditherMode ditherMin ditherMax g_malLCG =
     (if ditherMode = mal_dither_mode_rectangle
      then mal_dither_f32_rectangle ditherMin ditherMax g_malLCG
      else if ditherMode = mal_dither_mode_triangle
      then mal_dither_f32_triangle ditherMin ditherMax g_malLCG
      else (0, g_malLCG))"

text \<open>
  \<^verbatim>\<open>mal_pcm_f32_to_u8__reference\<close> (which \<^verbatim>\<open>mal_pcm_f32_to_u8\<close> and its SIMD variants all
  call): the samples of \<^verbatim>\<open>src\<close> are converted one after the other.
\<close>

text \<open>The conversion of one sample, given the dither noise \<open>d\<close>.\<close>

definition mal_pcm_f32_to_u8__sample :: "rat \<Rightarrow> rat \<Rightarrow> 8 word option" where
  "mal_pcm_f32_to_u8__sample x d =
     (let x1 = f32_add x d;
          x2 = (if x1 < - 1 then - 1 else if 1 < x1 then 1 else x1);
          x3 = f32_add x2 1;
          x4 = f32_mul x3 (255 / 2)
      in f32_to_uint8 x4)"

fun mal_pcm_f32_to_u8__reference ::
  "rat list \<Rightarrow> mal_dither_mode \<Rightarrow> 32 word \<Rightarrow> (8 word list \<times> 32 word) option" where
  "mal_pcm_f32_to_u8__reference [] ditherMode g_malLCG = Some ([], g_malLCG)"
| "mal_pcm_f32_to_u8__reference (x # src) ditherMode g_malLCG =
     (let ditherMin = (if ditherMode \<noteq> mal_dither_mode_none then f32 (1 / (- 128)) else 0);
          ditherMax = (if ditherMode \<noteq> mal_dither_mode_none then f32 (1 / 127) else 0);
          dg = mal_dither_f32 ditherMode ditherMin ditherMax g_malLCG
      in case mal_pcm_f32_to_u8__sample x (fst dg) of
           None \<Rightarrow> None
         | Some y \<Rightarrow>
             map_option (\<lambda>r. (y # fst r, snd r))
               (mal_pcm_f32_to_u8__reference src ditherMode (snd dg)))"

section \<open>Sinc SRC: table lookups\<close>

text \<open>
  The lookup table is the array
  \<^verbatim>\<open>float table[MAL_SRC_SINC_MAX_WINDOW_WIDTH*1 * MAL_SRC_SINC_LOOKUP_TABLE_RESOLUTION]\<close>;
  its entries are a function from the index, and a read at an index that is not below
  the length of the array is undefined (\<open>None\<close>).
\<close>

definition sinc_table_length :: nat where
  "sinc_table_length = MAL_SRC_SINC_MAX_WINDOW_WIDTH * 1 * MAL_SRC_SINC_LOOKUP_TABLE_RESOLUTION"

definition sinc_table_read :: "(nat \<Rightarrow> rat) \<Rightarrow> int \<Rightarrow> rat option" where
  "sinc_table_read table i =
     (if 0 \<le> i \<and> nat i < sinc_table_length then Some (table (nat i)) else None)"

text \<open>
  The index \<^verbatim>\<open>ixabs\<close> and the weight \<^verbatim>\<open>a\<close> that
  \<^verbatim>\<open>mal_src_sinc__interpolation_factor\<close> computes from \<^verbatim>\<open>x\<close>; it then reads
  \<^verbatim>\<open>table[ixabs]\<close> and \<^verbatim>\<open>table[ixabs+1]\<close>.
\<close>

definition mal_src_sinc__ixabs :: "rat \<Rightarrow> (int \<times> rat) option" where
  "mal_src_sinc__ixabs x =
     (let xabs = \<bar>x\<bar>;
          xabs = f32_mul xabs (of_nat MAL_SRC_SINC_LOOKUP_TABLE_RESOLUTION)
      in case f32_to_int32 xabs of
           None \<Rightarrow> None
         | Some ixabs \<Rightarrow> Some (ixabs, f32_sub xabs (f32 (of_int ixabs))))"

definition mal_src_sinc__interpolation_factor :: "(nat \<Rightarrow> rat) \<Rightarrow> rat \<Rightarrow> rat option" where
  "mal_src_sinc__interpolation_factor table x =
     (case mal_src_sinc__ixabs x of
        None \<Rightarrow> None
      | Some (ixabs, a) \<Rightarrow>
          (case sinc_table_read table ixabs of
             None \<Rightarrow> None
           | Some lo \<Rightarrow>
               (case sinc_table_read table (ixabs + 1) of
                  None \<Rightarrow> None
                | Some hi \<Rightarrow> Some (mal_mix_f32_fast lo hi a))))"

text \<open>
  One output sample of \<^verbatim>\<open>mal_src_read_deinterleaved__sinc\<close> (the implementation without
  SIMD): \<open>input\<close> is the cached input of the channel, \<open>timeIn\<close> the input time of the
  sample.  \<^verbatim>\<open>iWindowF[i]\<close> is \<^verbatim>\<open>(float)(i - windowWidth)\<close>; the first window sample is a
  dummy that the loop skips, so the taps are \<open>iWindow = 1, \<dots>, 2 * windowWidth - 1\<close>.
\<close>

fun mal_src_sinc__taps ::
  "(nat \<Rightarrow> rat) \<Rightarrow> nat \<Rightarrow> (nat \<Rightarrow> rat) \<Rightarrow> rat \<Rightarrow> nat list \<Rightarrow> rat \<Rightarrow> rat option" where
  "mal_src_sinc__taps table windowWidth windowSamples t [] sampleOut = Some sampleOut"
| "mal_src_sinc__taps table windowWidth windowSamples t (iWindow # rest) sampleOut =
     (let s = windowSamples iWindow;
          w = f32 (of_int (int iWindow - int windowWidth))
      in case mal_src_sinc__interpolation_factor table (f32_sub t w) of
           None \<Rightarrow> None
         | Some a \<Rightarrow>
             mal_src_sinc__taps table windowWidth windowSamples t rest
               (f32_add sampleOut (f32_mul s a)))"

definition mal_src_sinc__output_sample ::
  "(nat \<Rightarrow> rat) \<Rightarrow> nat \<Rightarrow> (nat \<Rightarrow> rat) \<Rightarrow> rat \<Rightarrow> rat option" where
  "mal_src_sinc__output_sample table windowWidth input timeIn =
     (let iTimeInF = of_int \<lfloor>timeIn\<rfloor>
      in case f32_to_uint32 iTimeInF of
           None \<Rightarrow> None
         | Some iTimeIn \<Rightarrow>
             let windowSamples = (\<lambda>i. if i = 0 then 0 else input (iTimeIn + i));
                 t = f32_sub timeIn (f32_of_nat iTimeIn)
             in mal_src_sinc__taps table windowWidth windowSamples t
                  [1..<2 * windowWidth] 0)"

section \<open>Linear SRC: reading\<close>

text \<open>
  \<^verbatim>\<open>mal_src_read_deinterleaved__linear\<close>.  The function is undefined (\<open>None\<close>) where the
  C code divides by zero, converts a float that does not fit the integer type, or
  indexes \<^verbatim>\<open>linear.input[iChannel]\<close> outside its 256 samples.

  One interpolated sample at input time \<open>t\<close>: \<^verbatim>\<open>floor\<close> is exact, the two neighbours are
  read from the cache and mixed.
\<close>

definition linear_sample :: "sample_buffers \<Rightarrow> nat \<Rightarrow> rat \<Rightarrow> rat option" where
  "linear_sample input iChannel t =
     (let iPrevSample = of_int \<lfloor>t\<rfloor>;
          iNextSample = f32_add iPrevSample 1;
          alpha = f32_sub t iPrevSample
      in case (f32_to_uint32 iPrevSample, f32_to_uint32 iNextSample) of
           (Some iPrev, Some iNext) \<Rightarrow>
             if iPrev < MAL_SRC_INPUT_BUFFER_SIZE_IN_SAMPLES \<and>
                iNext < MAL_SRC_INPUT_BUFFER_SIZE_IN_SAMPLES
             then Some (mal_mix_f32_fast (input iChannel iPrev) (input iChannel iNext) alpha)
             else None
         | _ \<Rightarrow> None)"

text \<open>
  The loop that writes the output frames in groups of four; \<open>n\<close> counts the groups
  that are left, \<open>iFrameOut\<close> is the loop variable and \<open>pos\<close> the index in the output
  buffer that \<^verbatim>\<open>ppNextSamplesOut[iChannel]\<close> points to.
\<close>

fun linear_output_groups ::
  "sample_buffers \<Rightarrow> nat \<Rightarrow> rat \<Rightarrow> nat \<Rightarrow> nat \<Rightarrow> nat \<Rightarrow> rat \<times> rat \<times> rat \<times> rat \<Rightarrow>
   sample_buffers \<Rightarrow> sample_buffers option" where
  "linear_output_groups input iChannel factor pos 0 iFrameOut ts out = Some out"
| "linear_output_groups input iChannel factor pos (Suc n) iFrameOut (t0, t1, t2, t3) out =
     (case (linear_sample input iChannel t0, linear_sample input iChannel t1,
            linear_sample input iChannel t2, linear_sample input iChannel t3) of
        (Some s0, Some s1, Some s2, Some s3) \<Rightarrow>
          linear_output_groups input iChannel factor pos n (iFrameOut + 1)
            (f32_add t0 (f32_mul factor 4), f32_add t1 (f32_mul factor 4),
             f32_add t2 (f32_mul factor 4), f32_add t3 (f32_mul factor 4))
            (out (iChannel := (out iChannel)
               (pos + iFrameOut * 4 + 0 := s0, pos + iFrameOut * 4 + 1 := s1,
                pos + iFrameOut * 4 + 2 := s2, pos + iFrameOut * 4 + 3 := s3)))
      | _ \<Rightarrow> None)"

text \<open>The loop that writes the frames left over, one at a time.\<close>

fun linear_output_rest ::
  "sample_buffers \<Rightarrow> nat \<Rightarrow> rat \<Rightarrow> nat \<Rightarrow> nat \<Rightarrow> nat \<Rightarrow> rat \<Rightarrow> sample_buffers \<Rightarrow>
   sample_buffers option" where
  "linear_output_rest input iChannel factor pos 0 iFrameOut t out = Some out"
| "linear_output_rest input iChannel factor pos (Suc n) iFrameOut t out =
     (case linear_sample input iChannel t of
        Some s \<Rightarrow>
          linear_output_rest input iChannel factor pos n (iFrameOut + 1) (f32_add t factor)
            (out (iChannel := (out iChannel) (pos + iFrameOut := s)))
      | None \<Rightarrow> None)"

definition linear_output_channel ::
  "sample_buffers \<Rightarrow> rat \<Rightarrow> rat \<Rightarrow> nat \<Rightarrow> nat \<Rightarrow> nat \<Rightarrow> sample_buffers \<Rightarrow> sample_buffers option" where
  "linear_output_channel input timeIn factor pos maxOutputFramesToRead iChannel out =
     (let maxOutputFramesToRead4 = maxOutputFramesToRead div 4;
          t0 = f32_add timeIn (f32_mul factor 0);
          t1 = f32_add timeIn (f32_mul factor 1);
          t2 = f32_add timeIn (f32_mul factor 2);
          t3 = f32_add timeIn (f32_mul factor 3)
      in case linear_output_groups input iChannel factor pos maxOutputFramesToRead4 0
                (t0, t1, t2, t3) out of
           None \<Rightarrow> None
         | Some out' \<Rightarrow>
             linear_output_rest input iChannel factor pos
               (maxOutputFramesToRead - maxOutputFramesToRead4 * 4) (maxOutputFramesToRead4 * 4)
               (f32_add timeIn (f32_mul (f32_mul factor (f32_of_nat maxOutputFramesToRead4)) 4))
               out')"

fun linear_output_channels ::
  "sample_buffers \<Rightarrow> rat \<Rightarrow> rat \<Rightarrow> nat \<Rightarrow> nat \<Rightarrow> nat list \<Rightarrow> sample_buffers \<Rightarrow>
   sample_buffers option" where
  "linear_output_channels input timeIn factor pos maxOutputFramesToRead [] out = Some out"
| "linear_output_channels input timeIn factor pos maxOutputFramesToRead (iChannel # rest) out =
     (case linear_output_channel input timeIn factor pos maxOutputFramesToRead iChannel out of
        None \<Rightarrow> None
      | Some out' \<Rightarrow>
          linear_output_channels input timeIn factor pos maxOutputFramesToRead rest out')"

text \<open>
  The first part of an iteration of the \<^verbatim>\<open>while\<close> loop: how many frames to ask the
  client for, \<^verbatim>\<open>framesToReadFromClient\<close>.
\<close>

definition linear_framesToReadFromClient :: "rat \<Rightarrow> rat \<Rightarrow> nat \<Rightarrow> nat option" where
  "linear_framesToReadFromClient tBeg factor framesToRead =
     (let tEnd = f32_add tBeg (f32_mul (f32_of_nat framesToRead) factor)
      in case f32_to_uint32 tEnd of
           None \<Rightarrow> None
         | Some n \<Rightarrow>
             let framesToReadFromClient = uint32_wrap (n + 1 + 1)
             in Some (if MAL_SRC_INPUT_BUFFER_SIZE_IN_SAMPLES \<le> framesToReadFromClient
                      then MAL_SRC_INPUT_BUFFER_SIZE_IN_SAMPLES else framesToReadFromClient))"

text \<open>The number of output frames of an iteration, \<^verbatim>\<open>maxOutputFramesToRead\<close>.\<close>

definition linear_maxOutputFramesToRead :: "nat \<Rightarrow> rat \<Rightarrow> rat \<Rightarrow> nat \<Rightarrow> nat option" where
  "linear_maxOutputFramesToRead framesReadFromClient tBeg factor framesToRead =
     (let tAvailable = f32_sub (f32_sub (f32_of_nat framesReadFromClient) tBeg) 1
      in case f32_div tAvailable factor of
           None \<Rightarrow> None
         | Some q \<Rightarrow>
             (case f32_to_uint32 q of
                None \<Rightarrow> None
              | Some m \<Rightarrow>
                  let m1 = (if m = 0 then 1 else m)
                  in Some (if framesToRead < m1 then framesToRead else m1)))"

text \<open>
  The last part of an iteration: the new \<^verbatim>\<open>timeIn\<close> and \<^verbatim>\<open>leftoverFrames\<close>, and the
  leftover samples moved to the front of the cache.  It is undefined when
  \<^verbatim>\<open>iNextFrame\<close> exceeds \<^verbatim>\<open>framesReadFromClient\<close> (the unsigned difference wraps around and
  the copy loop leaves the cache).
\<close>

definition linear_residual ::
  "'cb mal_src \<Rightarrow> sample_buffers \<Rightarrow> rat \<Rightarrow> nat \<Rightarrow> nat \<Rightarrow> 'cb mal_src option" where
  "linear_residual pSRC input factor framesReadFromClient maxOutputFramesToRead =
     (let tNext = f32_add (src_linear_timeIn pSRC)
                    (f32_mul (f32_of_nat maxOutputFramesToRead) factor)
      in case f32_to_uint32 (of_int \<lfloor>tNext\<rfloor>) of
           None \<Rightarrow> None
         | Some iNextFrame \<Rightarrow>
             if framesReadFromClient < iNextFrame then None
             else
               let leftoverFrames = framesReadFromClient - iNextFrame;
                   channels = unat (src_channels (src_config pSRC))
               in Some (pSRC
                    \<lparr> src_linear_input :=
                        (\<lambda>iChannel iFrame.
                           if iChannel < channels \<and> iFrame < leftoverFrames
                           then input iChannel (framesReadFromClient - leftoverFrames + iFrame)
                           else input iChannel iFrame),
                      src_linear_timeIn := f32_sub tNext (f32_of_nat iNextFrame),
                      src_linear_leftoverFrames := leftoverFrames \<rparr>))"

text \<open>
  One iteration of the \<^verbatim>\<open>while\<close> loop.  The state is the SRC object, the output buffers,
  the state of the client callback and \<^verbatim>\<open>totalFramesRead\<close>; the result also says whether
  the iteration left the loop through a \<^verbatim>\<open>break\<close>.
\<close>

definition linear_iteration ::
  "'s read_deinterleaved_proc \<Rightarrow> rat \<Rightarrow> nat \<Rightarrow>
   's read_deinterleaved_proc mal_src \<times> sample_buffers \<times> 's \<times> nat \<Rightarrow>
   (bool \<times> 's read_deinterleaved_proc mal_src \<times> sample_buffers \<times> 's \<times> nat) option" where
  "linear_iteration onRead factor frameCount state =
     (case state of (pSRC, out, st, totalFramesRead) \<Rightarrow>
     (let channels = unat (src_channels (src_config pSRC));
          framesRemaining = frameCount - totalFramesRead;
          framesToRead = (if 16384 < framesRemaining then 16384 else framesRemaining);
          tBeg = src_linear_timeIn pSRC;
          leftoverFrames = src_linear_leftoverFrames pSRC
      in (case linear_framesToReadFromClient tBeg factor framesToRead of
           None \<Rightarrow> None
         | Some framesToReadFromClient \<Rightarrow>
             let client = (if leftoverFrames < framesToReadFromClient
                           then onRead st (framesToReadFromClient - leftoverFrames)
                           else ((0, (\<lambda>c i. 0)), st));
                 input = deliver_frames (src_linear_input pSRC) (\<lambda>c. leftoverFrames) channels
                           (fst (fst client)) (snd (fst client));
                 st' = snd client;
                 framesReadFromClient = uint32_wrap (fst (fst client) + leftoverFrames)
             in if framesReadFromClient < 2
                then Some (True, pSRC \<lparr> src_linear_input := input \<rparr>, out, st', totalFramesRead)
                else
                  (case linear_maxOutputFramesToRead framesReadFromClient tBeg factor framesToRead of
                     None \<Rightarrow> None
                   | Some maxOutputFramesToRead \<Rightarrow>
                       (case linear_output_channels input (src_linear_timeIn pSRC) factor
                               totalFramesRead maxOutputFramesToRead [0..<channels] out of
                          None \<Rightarrow> None
                        | Some out' \<Rightarrow>
                            (case linear_residual pSRC input factor framesReadFromClient
                                    maxOutputFramesToRead of
                               None \<Rightarrow> None
                             | Some pSRC' \<Rightarrow>
                                 Some (framesReadFromClient < framesToReadFromClient,
                                       pSRC', out', st',
                                       totalFramesRead + maxOutputFramesToRead)))))))"

lemma linear_maxOutputFramesToRead_pos:
  assumes "linear_maxOutputFramesToRead framesReadFromClient tBeg factor framesToRead = Some m"
    and "0 < framesToRead"
  shows "0 < m"
  using assms
  by (auto simp: linear_maxOutputFramesToRead_def Let_def split: option.splits if_splits)

lemma linear_iteration_progress:
  assumes "linear_iteration onRead factor frameCount (pSRC, out, st, totalFramesRead) =
             Some (False, pSRC', out', st', totalFramesRead')"
    and "totalFramesRead < frameCount"
  shows "totalFramesRead < totalFramesRead'"
proof -
  let ?framesToRead = "if 16384 < frameCount - totalFramesRead then 16384
                       else frameCount - totalFramesRead"
  from assms(2) have pos: "0 < ?framesToRead" by simp
  from assms(1) obtain framesReadFromClient m where
    m: "linear_maxOutputFramesToRead framesReadFromClient (src_linear_timeIn pSRC) factor
          ?framesToRead = Some m"
    and total: "totalFramesRead' = totalFramesRead + m"
    unfolding linear_iteration_def Let_def
    by (auto split: option.splits if_splits)
  from linear_maxOutputFramesToRead_pos [OF m pos] total show ?thesis by simp
qed

text \<open>The \<^verbatim>\<open>while (totalFramesRead < frameCount)\<close> loop.\<close>

function mal_src_linear_loop ::
  "'s read_deinterleaved_proc \<Rightarrow> rat \<Rightarrow> nat \<Rightarrow>
   's read_deinterleaved_proc mal_src \<times> sample_buffers \<times> 's \<times> nat \<Rightarrow>
   ('s read_deinterleaved_proc mal_src \<times> sample_buffers \<times> 's \<times> nat) option" where
  "mal_src_linear_loop onRead factor frameCount (pSRC, out, st, totalFramesRead) =
     (if totalFramesRead < frameCount then
        case linear_iteration onRead factor frameCount (pSRC, out, st, totalFramesRead) of
          None \<Rightarrow> None
        | Some (break, state') \<Rightarrow>
            if break then Some state' else mal_src_linear_loop onRead factor frameCount state'
      else Some (pSRC, out, st, totalFramesRead))"
  by pat_completeness auto
termination
proof (relation "measure (\<lambda>(onRead, factor, frameCount, pSRC, out, st, totalFramesRead).
                   frameCount - totalFramesRead)", goal_cases)
  case 1
  show ?case by simp
next
  case (2 onRead factor frameCount pSRC out st totalFramesRead x2 break state')
  obtain pSRC' out' st' totalFramesRead' where
    state': "state' = (pSRC', out', st', totalFramesRead')"
    by (cases state') auto
  from 2 state' have
    "linear_iteration onRead factor frameCount (pSRC, out, st, totalFramesRead) =
       Some (False, pSRC', out', st', totalFramesRead')"
    by simp
  from linear_iteration_progress [OF this 2(1)] 2(1) state' show ?case by simp
qed

declare mal_src_linear_loop.simps [simp del]

text \<open>
  \<^verbatim>\<open>mal_src_read_deinterleaved__linear\<close>: the returned frame count, the SRC object, the
  output buffers and the state of the client callback.
\<close>

definition mal_src_read_deinterleaved__linear ::
  "'s read_deinterleaved_proc mal_src \<Rightarrow> nat \<Rightarrow> sample_buffers \<Rightarrow> 's \<Rightarrow>
   (nat \<times> 's read_deinterleaved_proc mal_src \<times> sample_buffers \<times> 's) option" where
  "mal_src_read_deinterleaved__linear pSRC frameCount ppSamplesOut st =
     (case f32_div (f32_of_uint32 (src_sampleRateIn (src_config pSRC)))
                   (f32_of_uint32 (src_sampleRateOut (src_config pSRC))) of
        None \<Rightarrow> None
      | Some factor \<Rightarrow>
          (case mal_src_linear_loop (the (src_onReadDeinterleaved (src_config pSRC))) factor
                  frameCount (pSRC, ppSamplesOut, st, 0) of
             None \<Rightarrow> None
           | Some (pSRC', out, st', totalFramesRead) \<Rightarrow>
               Some (totalFramesRead, pSRC', out, st')))"

text \<open>
  What the caller of a read of one channel sees: the returned frame count and the
  samples in that many frames of the output buffer of the channel.
\<close>

definition frames_read ::
  "(nat \<times> 'a \<times> sample_buffers \<times> 's) option \<Rightarrow> nat \<Rightarrow> (nat \<times> rat list) option" where
  "frames_read result iChannel =
     map_option (\<lambda>r. (fst r, map (fst (snd (snd r)) iChannel) [0..<fst r])) result"

section \<open>Example inputs\<close>

text \<open>A stereo 48 kHz s16 stream converted to itself.\<close>

definition passthrough_config :: "unit mal_dsp_config" where
  "passthrough_config =
     \<lparr> dsp_formatIn = mal_format_s16, dsp_channelsIn = 2, dsp_sampleRateIn = 48000,
       dsp_channelMapIn = [MAL_CHANNEL_FRONT_LEFT, MAL_CHANNEL_FRONT_RIGHT],
       dsp_formatOut = mal_format_s16, dsp_channelsOut = 2, dsp_sampleRateOut = 48000,
       dsp_channelMapOut = [MAL_CHANNEL_FRONT_LEFT, MAL_CHANNEL_FRONT_RIGHT],
       dsp_channelMixMode = mal_channel_mix_mode_planar_blend,
       dsp_ditherMode = mal_dither_mode_none,
       dsp_srcAlgorithm = mal_src_algorithm_linear,
       dsp_allowDynamicSampleRate = False, dsp_neverConsumeEndOfInput = False,
       dsp_onRead = Some (),
       dsp_sinc = \<lparr> sinc_windowFunction = mal_src_sinc_window_function_hann,
                    sinc_windowWidth = 0 \<rparr> \<rparr>"

text \<open>A linear SRC config whose input rate is zero.\<close>

definition zero_rate_src_config :: "unit mal_src_config" where
  "zero_rate_src_config =
     (mal_src_config_init 0 48000 1 (Some ())) \<lparr> src_algorithm := mal_src_algorithm_linear \<rparr>"

text \<open>A sinc SRC config that asks for a window of 100 samples.\<close>

definition wide_window_src_config :: "unit mal_src_config" where
  "wide_window_src_config =
     (mal_src_config_init 48000 44100 2 (Some ()))
       \<lparr> src_sinc := \<lparr> sinc_windowFunction = mal_src_sinc_window_function_hann,
                        sinc_windowWidth = 100 \<rparr> \<rparr>"





text \<open>Router configs: an input map that names front-left twice, and one with a mono
  channel among two channels.\<close>

definition duplicate_map_router_config :: "unit mal_channel_router_config" where
  "duplicate_map_router_config =
     mal_channel_router_config_init
       2 [MAL_CHANNEL_FRONT_LEFT, MAL_CHANNEL_FRONT_LEFT]
       2 [MAL_CHANNEL_FRONT_LEFT, MAL_CHANNEL_FRONT_RIGHT]
       mal_channel_mix_mode_simple (Some ())"

definition mono_pair_router_config :: "unit mal_channel_router_config" where
  "mono_pair_router_config =
     mal_channel_router_config_init
       2 [MAL_CHANNEL_FRONT_LEFT, MAL_CHANNEL_MONO]
       2 [MAL_CHANNEL_FRONT_LEFT, MAL_CHANNEL_FRONT_RIGHT]
       mal_channel_mix_mode_simple (Some ())"

text \<open>A mono to mono router in simple mixing mode that reads from a recording.\<close>

definition mono_router_config :: "rat list list read_deinterleaved_proc mal_channel_router_config" where
  "mono_router_config =
     mal_channel_router_config_init 1 [MAL_CHANNEL_MONO] 1 [MAL_CHANNEL_MONO]
       mal_channel_mix_mode_simple (Some recording_on_read)"

definition mono_router :: "rat list list read_deinterleaved_proc mal_channel_router" where
  "mono_router = projr (mal_channel_router_init (Some mono_router_config) True)"

text \<open>
  The linear SRC of the 48000 to 24000 scenario, freshly initialised, its input of eight
  samples, and output buffers filled with zeros.
\<close>

definition linear_src_config :: "rat list list read_deinterleaved_proc mal_src_config" where
  "linear_src_config =
     (mal_src_config_init 48000 24000 1 (Some recording_on_read))
       \<lparr> src_algorithm := mal_src_algorithm_linear \<rparr>"

definition linear_src :: "rat list list read_deinterleaved_proc mal_src" where
  "linear_src = projr (mal_src_init (Some linear_src_config) True)"

definition ramp :: "rat list list" where
  "ramp = [[0, 1, 2, 3, 4, 5, 6, 7]]"

definition silence :: sample_buffers where
  "silence = (\<lambda>c i. 0)"

text \<open>
  The state of that scenario after the SRC has taken the eight samples from the client:
  the input cache, the output buffers after the first iteration of the read loop, and
  the SRC object after it.
\<close>

definition ramp_cache :: sample_buffers where
  "ramp_cache = deliver_frames silence (\<lambda>c. 0) 1 8 (recording_data ramp 8)"

definition ramp_out :: sample_buffers where
  "ramp_out = silence (0 := (silence 0) (0 := 0, Suc 0 := 2, Suc (Suc 0) := 4))"

definition ramp_src :: "rat list list read_deinterleaved_proc mal_src" where
  "ramp_src = the (linear_residual linear_src ramp_cache 2 8 3)"



section \<open>Auxiliary facts\<close>

lemma list_all_upt_iff: "list_all P [0..<n] \<longleftrightarrow> (\<forall>i<n. P i)"
  by (auto simp: list_all_iff)

lemma list_ex_upt_iff: "list_ex P [0..<n] \<longleftrightarrow> (\<exists>i<n. P i)"
  by (auto simp: list_ex_iff)

lemma mal_src_init_InrD:
  assumes "mal_src_init (Some c) True = Inr s"
  shows "src_channels c \<noteq> 0" and "unat (src_channels c) \<le> 32"
    and "src_onReadDeinterleaved (src_config s) = src_onReadDeinterleaved c"
  using assms
  by (auto simp: mal_src_init_def MAL_MAX_CHANNELS_def Let_def
      split: if_splits mal_src_sinc_window_function.splits)

lemma mal_channel_router_init_InrD:
  assumes "mal_channel_router_init (Some c) True = Inr r"
  shows "cr_config r = c" and "cr_isPassthrough r = router_isPassthrough c"
    and "mal_channel_map_valid (cr_channelsIn c) (Some (cr_channelMapIn c))"
    and "mal_channel_map_valid (cr_channelsOut c) (Some (cr_channelMapOut c))"
  using assms
  by (auto simp: mal_channel_router_init_def split: if_splits)

lemma mal_dsp_init_InrD:
  assumes "mal_dsp_init config True = Inr dsp"
  shows "dsp_isSRCRequired dsp =
           (dsp_sampleRateIn config \<noteq> dsp_sampleRateOut config \<or> dsp_allowDynamicSampleRate config)"
    and "dsp_isChannelRoutingRequired dsp =
           (dsp_channelsIn config \<noteq> dsp_channelsOut config \<or>
            \<not> mal_channel_map_equal False (dsp_channelsIn config)
                 (dsp_channelMapIn config) (dsp_channelMapOut config))"
    and "dsp_isPassthrough dsp =
           (\<not> dsp_isSRCRequired dsp \<and> \<not> dsp_isChannelRoutingRequired dsp \<and>
            dsp_formatIn config = dsp_formatOut config)"
    and "dsp_isChannelRoutingAtStart dsp = (dsp_channelsOut config < dsp_channelsIn config)"
    and "\<exists>srcConfig. mal_src_init (Some srcConfig) True = Inr (dsp_src dsp) \<and>
           src_onReadDeinterleaved srcConfig = Some mal_dsp__src_on_read_deinterleaved \<and>
           src_channels srcConfig =
             (if dsp_channelsIn config < dsp_channelsOut config
              then dsp_channelsIn config else dsp_channelsOut config)"
    and "cr_onReadDeinterleaved (cr_config (dsp_channelRouter dsp)) =
           Some mal_dsp__channel_router_on_read_deinterleaved"
    and "fc_onRead (fc_config (dsp_formatConverterIn dsp)) =
           Some mal_dsp__pre_format_converter_on_read"
  using assms
  unfolding mal_dsp_init_def Let_def
  by (auto split: sum.splits if_splits
      simp: mal_src_config_init_def mal_src_config_init_new_def
        mal_format_converter_init_def mal_format_converter_config_init_def
        mal_format_converter_config_init_new_def
        mal_channel_router_config_init_def
      dest!: mal_channel_router_init_InrD(1))

lemma passthrough_config_init: "\<not> isl (mal_dsp_init passthrough_config True)"
  by code_simp

lemma mal_src_init_windowWidth_unat:
  "unat (mal_src_init_windowWidth w) =
     (if unat w = 0 \<or> 32 < unat w then 32 else if unat w < 2 then 2 else unat w)"
  by (auto simp: mal_src_init_windowWidth_def Let_def
        MAL_SRC_SINC_DEFAULT_WINDOW_WIDTH_def MAL_SRC_SINC_MIN_WINDOW_WIDTH_def
        MAL_SRC_SINC_MAX_WINDOW_WIDTH_def word_less_nat_alt unat_eq_0)



lemma mono_router_config_simps:
  "cr_channelsIn mono_router_config = 1" "cr_channelsOut mono_router_config = 1"
  "cr_onReadDeinterleaved mono_router_config = Some recording_on_read"
  "cr_channelMapIn mono_router_config ! 0 = MAL_CHANNEL_MONO"
  "cr_channelMapOut mono_router_config ! 0 = MAL_CHANNEL_MONO"
  by (simp_all add: mono_router_config_def mal_channel_router_config_init_def
      MAL_MAX_CHANNELS_def)

lemma mono_router_init:
  "mal_channel_router_init (Some mono_router_config) True = Inr mono_router"
  by (simp add: mono_router_def mal_channel_router_init_def mal_channel_map_valid_def
      mono_router_config_simps)

lemma mono_router_simps:
  "cr_config mono_router = mono_router_config" "cr_isPassthrough mono_router"
  using mal_channel_router_init_InrD(1,2) [OF mono_router_init]
  by (simp_all add: router_isPassthrough_def mal_channel_map_equal_def mono_router_config_simps
      MAL_MAX_CHANNELS_def)

lemma recording_two_frames:
  "recording_on_read [[1 / 2, 1 / 4]] 4294967295 =
     ((2, recording_data [[1 / 2, 1 / 4]] 2), [[]])"
  by (simp add: recording_on_read_def numeral_2_eq_2)

lemma recording_empty: "recording_on_read [[]] n = ((0, recording_data [[]] 0), [[]])"
  by (simp add: recording_on_read_def)

section \<open>Facts about the arithmetic and the 48000 to 24000 scenario\<close>

lemma round_half_even_of_int [simp]: "round_half_even (of_int m) = m"
  by (simp add: round_half_even_def)

lemma fp_round_of_nat:
  assumes "n < 2 ^ p" and "0 < p" and "emin \<le> 0"
  shows "fp_round p emin (of_nat n) = of_nat n"
proof (cases "n = 0")
  case True
  then show ?thesis by (simp add: fp_round_def)
next
  case False
  then have npos: "0 < int n" by simp
  define b where "b = bitlen (int n)"
  have b1: "1 \<le> b"
    using npos by (simp add: b_def bitlen_alt_def)
  have "int n < 2 ^ p" using assms(1)
    by (metis of_nat_less_iff of_nat_numeral of_nat_power)
  then have b2: "b \<le> int p"
    unfolding b_def by (simp add: bitlen_le_iff_power)
  have ex: "fp_exponent (of_nat n) = b - 1"
    using False by (simp add: fp_exponent_def b_def)
  define k where "k = nat (int p - b)"
  have q: "pow2 (max (b - 1) emin - int p + 1) = 1 / 2 ^ k"
  proof -
    have m: "max (b - 1) emin - int p + 1 = b - int p" using b1 assms(3) by simp
    have "pow2 (b - int p) = 1 / 2 ^ k"
    proof (cases "b = int p")
      case True
      then show ?thesis by (simp add: pow2_def k_def)
    next
      case False
      with b2 have "b < int p" by simp
      then have "\<not> 0 \<le> b - int p" by simp
      moreover have "nat (- (b - int p)) = k" by (simp add: k_def)
      ultimately show ?thesis by (simp add: pow2_def)
    qed
    with m show ?thesis by simp
  qed
  have "(of_nat n :: rat) / (1 / 2 ^ k) = of_int (int n * 2 ^ k)"
    by simp
  then have "round_half_even ((of_nat n :: rat) / (1 / 2 ^ k)) = int n * 2 ^ k"
    by (simp only: round_half_even_of_int)
  then show ?thesis
    using False by (simp add: fp_round_def ex q Let_def)
qed

lemma f32_of_nat_exact: "n < 16777216 \<Longrightarrow> f32 (of_nat n) = of_nat n"
  using fp_round_of_nat [of n 24 "- 126"] by (simp add: f32_def)

lemma c_trunc_of_nat [simp]: "c_trunc (of_nat n) = int n"
  by (simp add: c_trunc_def)

lemma f32_to_uint32_of_nat: "n < 4294967296 \<Longrightarrow> f32_to_uint32 (of_nat n) = Some n"
  by (simp add: f32_to_uint32_def)

lemma f32_numeral: "(numeral k :: nat) < 16777216 \<Longrightarrow> f32 (numeral k) = numeral k"
  using f32_of_nat_exact [of "numeral k"] by simp

lemma f32_zero [simp]: "f32 0 = 0"
  by (simp add: f32_def fp_round_def)

lemma f32_one [simp]: "f32 1 = 1"
  using f32_of_nat_exact [of 1] by simp

lemma f32_to_uint32_numeral:
  "(numeral k :: nat) < 4294967296 \<Longrightarrow> f32_to_uint32 (numeral k) = Some (numeral k)"
  using f32_to_uint32_of_nat [of "numeral k"] by simp

lemma f32_to_uint32_zero [simp]: "f32_to_uint32 0 = Some 0"
  using f32_to_uint32_of_nat [of 0] by simp

lemma f32_to_uint32_one [simp]: "f32_to_uint32 1 = Some 1"
  using f32_to_uint32_of_nat [of 1] by simp

lemma uint32_wrap_small: "n < 4294967296 \<Longrightarrow> uint32_wrap n = n"
  by (simp add: uint32_wrap_def)

lemma f32_seven_halves: "f32 (7 / 2) = 7 / 2" "f32_to_uint32 (7 / 2) = Some 3"
  by code_simp+

lemma sample_rate_factor:
  "f32_div (f32_of_uint32 48000) (f32_of_uint32 24000) = Some 2"
  by code_simp

lemma linear_src_config_simps:
  "src_sampleRateIn linear_src_config = 48000" "src_sampleRateOut linear_src_config = 24000"
  "src_channels linear_src_config = 1"
  "src_onReadDeinterleaved linear_src_config = Some recording_on_read"
  by (simp_all add: linear_src_config_def mal_src_config_init_def mal_src_config_init_new_def)

lemma linear_src_simps:
  "src_config linear_src = linear_src_config" "src_linear_timeIn linear_src = 0"
  "src_linear_leftoverFrames linear_src = 0" "src_linear_input linear_src = silence"
  by (simp_all add: linear_src_def mal_src_init_def linear_src_config_def mal_src_config_init_def
      mal_src_config_init_new_def MAL_MAX_CHANNELS_def silence_def)

lemma ramp_read:
  assumes "8 \<le> k"
  shows "recording_on_read ramp k = ((8, recording_data ramp 8), [[]])"
proof -
  have len: "length (hd ramp) = 8" and ne: "ramp \<noteq> []" and dr: "map (drop 8) ramp = [[]]"
    by (simp_all add: ramp_def)
  from assms have "min k 8 = 8" by simp
  with len ne dr show ?thesis
    by (simp add: recording_on_read_def Let_def)
qed

lemma linear_framesToReadFromClient_start:
  assumes "n \<le> 16384"
  shows "linear_framesToReadFromClient 0 2 n = Some (if 127 \<le> n then 256 else 2 * n + 2)"
proof -
  have "f32 (of_nat n) = of_nat n" using assms by (simp add: f32_of_nat_exact)
  moreover have "f32 (of_nat (n * 2)) = of_nat (n * 2)"
    using assms by (intro f32_of_nat_exact) simp
  moreover have "f32_to_uint32 (of_nat (n * 2)) = Some (n * 2)"
    using assms by (intro f32_to_uint32_of_nat) simp
  ultimately show ?thesis
    using assms
    by (simp add: linear_framesToReadFromClient_def f32_add_def f32_mul_def f32_of_nat_def
        uint32_wrap_small MAL_SRC_INPUT_BUFFER_SIZE_IN_SAMPLES_def Let_def)
qed

lemma linear_maxOutputFramesToRead_ramp:
  assumes "3 \<le> n"
  shows "linear_maxOutputFramesToRead 8 0 2 n = Some 3"
  using assms
  by (simp add: linear_maxOutputFramesToRead_def f32_sub_def f32_of_nat_def f32_div_def
      f32_numeral f32_seven_halves Let_def)

lemma ramp_cache_vals:
  "ramp_cache 0 0 = 0" "ramp_cache 0 1 = 1" "ramp_cache 0 2 = 2" "ramp_cache 0 3 = 3"
  "ramp_cache 0 4 = 4" "ramp_cache 0 5 = 5" "ramp_cache 0 6 = 6" "ramp_cache 0 7 = 7"
  by (simp_all add: ramp_cache_def deliver_frames_def write_frames_def recording_data_def ramp_def)

lemma linear_sample_ramp:
  "linear_sample ramp_cache 0 0 = Some 0"
  "linear_sample ramp_cache 0 2 = Some 2"
  "linear_sample ramp_cache 0 4 = Some 4"
  by (simp_all add: linear_sample_def Let_def f32_add_def f32_sub_def f32_mul_def
      mal_mix_f32_fast_def f32_numeral f32_to_uint32_numeral ramp_cache_vals
      MAL_SRC_INPUT_BUFFER_SIZE_IN_SAMPLES_def)

lemma f32_ramp_steps: "f32_add 0 2 = 2" "f32_add 2 2 = 4" "f32_add 4 2 = 6"
  by (simp_all add: f32_add_def f32_numeral)

lemma linear_output_rest_ramp:
  "linear_output_rest ramp_cache 0 2 0 (Suc (Suc (Suc 0))) 0 0 silence =
     Some (silence (0 := (silence 0) (0 := 0, Suc 0 := 2, Suc (Suc 0) := 4)))"
  by (simp add: linear_sample_ramp f32_ramp_steps)

lemma linear_output_channel_ramp:
  "linear_output_channel ramp_cache 0 2 0 3 0 silence =
     Some (silence (0 := (silence 0) (0 := 0, Suc 0 := 2, Suc (Suc 0) := 4)))"
proof -
  have a: "(3::nat) div 4 = 0" "(3::nat) - 0 * 4 = Suc (Suc (Suc 0))" by simp_all
  have t: "f32_add 0 (f32_mul (f32_mul 2 (f32_of_nat 0)) 4) = 0"
    by (simp add: f32_add_def f32_mul_def f32_of_nat_def)
  show ?thesis
    unfolding linear_output_channel_def Let_def a
    by (simp only: linear_output_groups.simps option.case t linear_output_rest_ramp mult_zero_left)
qed

lemma linear_output_ramp:
  "linear_output_channels ramp_cache 0 2 0 3 [0] silence = Some ramp_out"
  by (simp add: linear_output_channel_ramp ramp_out_def)

lemma ramp_out_vals: "map (ramp_out 0) [0..<3] = [0, 2, 4]"
proof -
  have "[0..<3] = [0, Suc 0, Suc (Suc 0)]" by (simp add: numeral_3_eq_3)
  then show ?thesis by (simp add: ramp_out_def)
qed

lemma linear_residual_ramp:
  "linear_residual linear_src ramp_cache 2 8 3 = Some ramp_src"
  "src_linear_leftoverFrames ramp_src = 2" "src_linear_timeIn ramp_src = 0"
  "src_linear_input ramp_src 0 0 = 6" "src_linear_input ramp_src 0 1 = 7"
  "src_config ramp_src = linear_src_config"
  unfolding ramp_src_def
  by (simp_all add: linear_residual_def Let_def linear_src_simps linear_src_config_simps
      f32_add_def f32_mul_def f32_sub_def f32_of_nat_def f32_numeral f32_to_uint32_numeral
      ramp_cache_vals)

lemma linear_iteration_ramp:
  assumes "4 \<le> frameCount"
  shows "linear_iteration recording_on_read 2 frameCount (linear_src, silence, ramp, 0) =
           Some (True, ramp_src, ramp_out, [[]], 3)"
proof -
  define n where "n = (if 16384 < frameCount then 16384 else frameCount)"
  have n: "4 \<le> n" "n \<le> 16384" using assms by (simp_all add: n_def)
  define k where "k = (if 127 \<le> n then 256 else 2 * n + 2)"
  have k: "8 \<le> k" "8 < k" "0 < k" using n by (simp_all add: k_def)
  have toRead: "linear_framesToReadFromClient 0 2 n = Some k"
    using linear_framesToReadFromClient_start [OF n(2)] by (simp add: k_def)
  have maxOut: "linear_maxOutputFramesToRead 8 0 2 n = Some 3"
    using n by (intro linear_maxOutputFramesToRead_ramp) simp
  have client: "recording_on_read ramp k = ((8, recording_data ramp 8), [[]])"
    by (rule ramp_read [OF k(1)])
  have wrap: "uint32_wrap 8 = 8" by (simp add: uint32_wrap_small)
  have fr: "(if 16384 < frameCount then 16384 else frameCount - 0) = n"
    by (simp add: n_def)
  have input: "deliver_frames silence (\<lambda>c. 0) (Suc 0) 8 (recording_data ramp 8) = ramp_cache"
    by (simp add: ramp_cache_def)
  show ?thesis
    unfolding linear_iteration_def
    by (simp add: Let_def linear_src_simps linear_src_config_simps fr
        toRead k client wrap maxOut input linear_output_channel_ramp ramp_out_def [symmetric]
        linear_residual_ramp(1))
qed

lemma linear_loop_ramp:
  assumes "4 \<le> frameCount"
  shows "mal_src_linear_loop recording_on_read 2 frameCount (linear_src, silence, ramp, 0) =
           Some (ramp_src, ramp_out, [[]], 3)"
  using assms
  by (subst mal_src_linear_loop.simps) (simp add: linear_iteration_ramp)

lemma linear_read_ramp:
  assumes "4 \<le> frameCount"
  shows "frames_read (mal_src_read_deinterleaved__linear linear_src frameCount silence ramp) 0 =
           Some (3, [0, 2, 4])"
  using assms
  by (simp add: frames_read_def mal_src_read_deinterleaved__linear_def linear_src_simps
      linear_src_config_simps sample_rate_factor linear_loop_ramp ramp_out_vals)

text \<open>
  The fourth frame is not lost. After the first read the converter keeps the two input frames
  \<open>6\<close> and \<open>7\<close>; the next read, on a client that has nothing left, interpolates between them
  at time \<open>0\<close> and returns the one frame \<open>6\<close>.
\<close>

lemma f32_half: "f32 (1 / 2) = 1 / 2" "f32_to_uint32 (1 / 2) = Some 0"
  by code_simp+

lemma empty_read: "recording_on_read [[]] k = ((0, recording_data [[]] 0), [[]])"
  by (simp add: recording_on_read_def)

lemma deliver_no_frames: "deliver_frames bufs offs channels 0 data = bufs"
proof -
  have "write_frames b c off 0 src = b" for b :: sample_buffers and c off src
    by (auto simp: write_frames_def fun_eq_iff)
  then show ?thesis
    unfolding deliver_frames_def by (induction channels) simp_all
qed

lemma linear_framesToReadFromClient_start2:
  assumes "1 \<le> n" "n \<le> 16384"
  shows "\<exists>k. linear_framesToReadFromClient 0 2 n = Some k \<and> 2 < k"
  using linear_framesToReadFromClient_start [OF assms(2)] assms(1) by simp

lemma linear_maxOutputFramesToRead_tail:
  assumes "1 \<le> n"
  shows "linear_maxOutputFramesToRead 2 0 2 n = Some 1"
  using assms
  by (simp add: linear_maxOutputFramesToRead_def f32_sub_def f32_of_nat_def f32_div_def
      f32_numeral f32_half Let_def)

lemma linear_sample_tail: "linear_sample (src_linear_input ramp_src) 0 0 = Some 6"
  by (simp add: linear_sample_def Let_def f32_add_def f32_sub_def f32_mul_def
      mal_mix_f32_fast_def f32_numeral f32_to_uint32_numeral linear_residual_ramp
      MAL_SRC_INPUT_BUFFER_SIZE_IN_SAMPLES_def)

lemma linear_output_channel_tail:
  "linear_output_channel (src_linear_input ramp_src) 0 2 0 1 0 out =
     Some (out (0 := (out 0) (0 := 6)))"
proof -
  have a: "(1::nat) div 4 = 0" "(1::nat) - 0 * 4 = Suc 0" by simp_all
  have t: "f32_add 0 (f32_mul (f32_mul 2 (f32_of_nat 0)) 4) = 0"
    by (simp add: f32_add_def f32_mul_def f32_of_nat_def)
  show ?thesis
    unfolding linear_output_channel_def Let_def a
    by (simp add: t linear_sample_tail)
qed

lemma linear_residual_tail:
  "\<exists>s. linear_residual ramp_src (src_linear_input ramp_src) 2 2 1 = Some s \<and>
       src_linear_leftoverFrames s = 0 \<and> src_linear_timeIn s = 0"
  by (simp add: linear_residual_def Let_def linear_residual_ramp
      f32_add_def f32_mul_def f32_sub_def f32_of_nat_def f32_numeral f32_to_uint32_numeral)

lemma linear_iteration_tail:
  assumes "1 \<le> frameCount"
  shows "\<exists>s. linear_iteration recording_on_read 2 frameCount (ramp_src, out, [[]], 0) =
           Some (True, s, out (0 := (out 0) (0 := 6)), [[]], 1)"
proof -
  define n where "n = (if 16384 < frameCount then 16384 else frameCount)"
  have n: "1 \<le> n" "n \<le> 16384" using assms by (simp_all add: n_def)
  from linear_framesToReadFromClient_start2 [OF n] obtain k where
    toRead: "linear_framesToReadFromClient 0 2 n = Some k" and k: "2 < k"
    by blast
  have maxOut: "linear_maxOutputFramesToRead 2 0 2 n = Some 1"
    using n by (intro linear_maxOutputFramesToRead_tail) simp
  have wrap: "uint32_wrap (Suc (Suc 0)) = 2" by (simp add: uint32_wrap_def)
  have fr: "(if 16384 < frameCount then 16384 else frameCount - 0) = n"
    by (simp add: n_def)
  from linear_residual_tail obtain s where
    res: "linear_residual ramp_src (src_linear_input ramp_src) 2 2 (Suc 0) = Some s"
    by auto
  have oc: "linear_output_channel (src_linear_input ramp_src) 0 2 0 (Suc 0) 0 out =
              Some (out (0 := (out 0) (0 := 6)))"
    using linear_output_channel_tail [of out] by simp
  show ?thesis
    unfolding linear_iteration_def
    by (simp add: Let_def linear_residual_ramp linear_src_config_simps fr
        toRead k empty_read deliver_no_frames wrap maxOut oc res)
qed

lemma linear_second_read:
  assumes "1 \<le> frameCount"
  shows "frames_read (mal_src_read_deinterleaved__linear ramp_src frameCount out [[]]) 0 =
           Some (1, [6])"
proof -
  from linear_iteration_tail [OF assms, of out] obtain s where
    "linear_iteration recording_on_read 2 frameCount (ramp_src, out, [[]], 0) =
       Some (True, s, out (0 := (out 0) (0 := 6)), [[]], 1)"
    by blast
  with assms have
    "mal_src_linear_loop recording_on_read 2 frameCount (ramp_src, out, [[]], 0) =
       Some (s, out (0 := (out 0) (0 := 6)), [[]], 1)"
    by (subst mal_src_linear_loop.simps) simp
  then show ?thesis
    by (simp add: frames_read_def mal_src_read_deinterleaved__linear_def linear_residual_ramp
        linear_src_config_simps sample_rate_factor)
qed

lemma f32_to_u8_samples:
  "mal_pcm_f32_to_u8__sample 1 0 = Some 255"
  "mal_pcm_f32_to_u8__sample (- 1) 0 = Some 0"
  "mal_pcm_f32_to_u8__sample 0 0 = Some 127"
  by code_simp+

lemma sinc_first_tap:
  "mal_src_sinc__ixabs (f32_sub (7 / 8) (f32 (- 31))) = Some (255, 0)"
  "f32_to_uint32 (of_int \<lfloor>7 / 8 :: rat\<rfloor>) = Some 0"
  "f32_sub (7 / 8) (f32_of_nat 0) = 7 / 8"
  by code_simp+

section \<open>The passthrough flag of the DSP supervisor\<close>

text \<open>
  C1.  After a successful \<^verbatim>\<open>mal_dsp_init\<close> the flag \<^verbatim>\<open>isPassthrough\<close> is set if and only
  if the input and output formats are equal, the channel counts are equal, the two
  channel maps agree on each of the \<^verbatim>\<open>channelsIn\<close> channels, the sample rates are equal
  and \<^verbatim>\<open>allowDynamicSampleRate\<close> is off.  (The initialisation of the SRC stage succeeds
  only for 1 to 32 channels, which is where \<^verbatim>\<open>mal_channel_map_equal\<close> compares the maps
  element by element.)
\<close>

theorem mal_dsp_init_passthrough_iff:
  assumes "mal_dsp_init config True = Inr dsp"
  shows "dsp_isPassthrough dsp \<longleftrightarrow>
           dsp_formatIn config = dsp_formatOut config \<and>
           dsp_channelsIn config = dsp_channelsOut config \<and>
           (\<forall>i < unat (dsp_channelsIn config).
               dsp_channelMapIn config ! i = dsp_channelMapOut config ! i) \<and>
           dsp_sampleRateIn config = dsp_sampleRateOut config \<and>
           \<not> dsp_allowDynamicSampleRate config"
proof -
  note D = mal_dsp_init_InrD [OF assms]
  from D(5) obtain srcConfig where
    src: "mal_src_init (Some srcConfig) True = Inr (dsp_src dsp)"
    and ch: "src_channels srcConfig =
               (if dsp_channelsIn config < dsp_channelsOut config
                then dsp_channelsIn config else dsp_channelsOut config)"
    by blast
  have eq: "mal_channel_map_equal False (dsp_channelsIn config)
              (dsp_channelMapIn config) (dsp_channelMapOut config) \<longleftrightarrow>
            (\<forall>i < unat (dsp_channelsIn config).
               dsp_channelMapIn config ! i = dsp_channelMapOut config ! i)"
    if same: "dsp_channelsIn config = dsp_channelsOut config"
  proof -
    from ch same have "src_channels srcConfig = dsp_channelsIn config" by simp
    with mal_src_init_InrD(1,2) [OF src]
    have "dsp_channelsIn config \<noteq> 0" and "unat (dsp_channelsIn config) \<le> 32" by simp_all
    then show ?thesis
      by (simp add: mal_channel_map_equal_def MAL_MAX_CHANNELS_def list_all_upt_iff)
  qed
  show ?thesis
    unfolding D(3) D(1) D(2) using eq by blast
qed

theorem mal_dsp_init_passthrough_iff_witness:
  "\<not> isl (mal_dsp_init passthrough_config True) \<and>
   dsp_isPassthrough (projr (mal_dsp_init passthrough_config True))"
proof -
  have ok: "\<not> isl (mal_dsp_init passthrough_config True)"
    by (rule passthrough_config_init)
  then have "mal_dsp_init passthrough_config True =
             Inr (projr (mal_dsp_init passthrough_config True))"
    by simp
  from mal_dsp_init_passthrough_iff [OF this] ok show ?thesis
    by (simp add: passthrough_config_def MAL_CHANNEL_FRONT_LEFT_def MAL_CHANNEL_FRONT_RIGHT_def
        less_Suc_eq numeral_2_eq_2)
qed

section \<open>Sample rates of zero\<close>

text \<open>
  C6.  The claim is that \<^verbatim>\<open>mal_src_init\<close> rejects a config whose input or output sample
  rate is zero, and that \<^verbatim>\<open>mal_src_set_sample_rate\<close> rejects a zero rate and leaves the
  stored rates as they were.  The setters do so; \<^verbatim>\<open>mal_src_init\<close> does not look at the
  rates: for a linear SRC with one channel, a callback and an input rate of zero it
  returns \<^verbatim>\<open>MAL_SUCCESS\<close> and stores the zero rate.
\<close>

theorem mal_src_init_accepts_zero_sample_rate:
  "\<not> isl (mal_src_init (Some zero_rate_src_config) True) \<and>
   src_sampleRateIn (src_config (projr (mal_src_init (Some zero_rate_src_config) True))) = 0"
  by (simp add: mal_src_init_def zero_rate_src_config_def mal_src_config_init_def
      mal_src_config_init_new_def MAL_MAX_CHANNELS_def)

text \<open>
  The second half of C6: a setter called with a zero rate returns \<^verbatim>\<open>MAL_INVALID_ARGS\<close>;
  an error result carries no new state, the object is as it was.
\<close>

lemma mal_src_set_sample_rate_rejects_zero:
  "sampleRateIn = 0 \<or> sampleRateOut = 0 \<Longrightarrow>
   mal_src_set_sample_rate pSRC sampleRateIn sampleRateOut = Inl MAL_INVALID_ARGS"
  by (auto simp: mal_src_set_sample_rate_def split: option.splits)

lemma mal_src_set_input_sample_rate_rejects_zero:
  "mal_src_set_input_sample_rate pSRC 0 = Inl MAL_INVALID_ARGS"
  by (auto simp: mal_src_set_input_sample_rate_def split: option.splits)

lemma mal_src_set_output_sample_rate_rejects_zero:
  "mal_src_set_output_sample_rate pSRC 0 = Inl MAL_INVALID_ARGS"
  by (auto simp: mal_src_set_output_sample_rate_def split: option.splits)

section \<open>The window width of the sinc SRC\<close>

text \<open>
  C7, as claimed: a sinc SRC config with a window width outside 2..32 makes
  \<^verbatim>\<open>mal_src_init\<close> fail.  It does not: a width of 100 is accepted.
\<close>

theorem mal_src_init_wide_window_succeeds:
  "\<not> isl (mal_src_init (Some wide_window_src_config) True)"
  by (simp add: mal_src_init_def wide_window_src_config_def mal_src_config_init_def
      mal_src_config_init_new_def MAL_MAX_CHANNELS_def Let_def)

text \<open>
  C7, amended.  For every SRC config with algorithm sinc, a callback, 1 to 32 channels
  and a known window function, \<^verbatim>\<open>mal_src_init\<close> succeeds whatever the window width is,
  and stores the width brought into 2..32: a width of 0 or above 32 becomes 32, a width
  of 1 becomes 2, any other width is kept.
\<close>

theorem mal_src_init_sinc_clamps_window_width:
  assumes "src_algorithm c = mal_src_algorithm_sinc"
    and "src_onReadDeinterleaved c \<noteq> None"
    and "src_channels c \<noteq> 0" and "unat (src_channels c) \<le> 32"
    and "sinc_windowFunction (src_sinc c) \<noteq> mal_src_sinc_window_function_other"
  shows "\<not> isl (mal_src_init (Some c) True) \<and>
         unat (sinc_windowWidth (src_sinc (src_config (projr (mal_src_init (Some c) True))))) =
           (let w = unat (sinc_windowWidth (src_sinc c))
            in if w = 0 \<or> 32 < w then 32 else if w < 2 then 2 else w)"
  using assms
  by (cases "sinc_windowFunction (src_sinc c)")
     (auto simp: mal_src_init_def MAL_MAX_CHANNELS_def Let_def mal_src_init_windowWidth_unat)

theorem mal_src_init_sinc_clamps_window_width_witness:
  "\<not> isl (mal_src_init (Some wide_window_src_config) True) \<and>
   unat (sinc_windowWidth (src_sinc (src_config
           (projr (mal_src_init (Some wide_window_src_config) True))))) = 32"
  using mal_src_init_sinc_clamps_window_width [of wide_window_src_config]
  by (simp add: wide_window_src_config_def mal_src_config_init_def mal_src_config_init_new_def)

section \<open>Initialisation of the format converter\<close>



section \<open>The pull graph of the DSP supervisor\<close>




section \<open>Channel maps accepted by the router\<close>

text \<open>
  C9, as claimed: a router config whose input or output channel map names a position
  other than \<^verbatim>\<open>MAL_CHANNEL_NONE\<close> twice is rejected by \<^verbatim>\<open>mal_channel_router_init\<close>, and a
  map accepted by \<^verbatim>\<open>mal_channel_map_valid\<close> names each position at most once.  Both fail
  for the two-channel map (front-left, front-left).
\<close>

theorem mal_channel_router_init_accepts_duplicates:
  "\<not> isl (mal_channel_router_init (Some duplicate_map_router_config) True) \<and>
   mal_channel_map_valid 2 (Some [MAL_CHANNEL_FRONT_LEFT, MAL_CHANNEL_FRONT_LEFT])"
  by code_simp

text \<open>
  C9, amended.  \<^verbatim>\<open>mal_channel_router_init\<close> returns an error exactly when the callback
  is \<^verbatim>\<open>NULL\<close> or one of the two channel maps is invalid, where a map is invalid exactly
  when its channel count is zero or it has more than one channel and a
  \<^verbatim>\<open>MAL_CHANNEL_MONO\<close> among them; the error is \<^verbatim>\<open>MAL_INVALID_ARGS\<close>.  A position that
  occurs more than once does not make a map invalid.
\<close>

theorem mal_channel_router_init_error_iff:
  "(isl (mal_channel_router_init (Some config) True) \<longleftrightarrow>
      cr_onReadDeinterleaved config = None \<or>
      cr_channelsIn config = 0 \<or>
      (1 < cr_channelsIn config \<and>
       (\<exists>i < unat (cr_channelsIn config). cr_channelMapIn config ! i = MAL_CHANNEL_MONO)) \<or>
      cr_channelsOut config = 0 \<or>
      (1 < cr_channelsOut config \<and>
       (\<exists>i < unat (cr_channelsOut config). cr_channelMapOut config ! i = MAL_CHANNEL_MONO))) \<and>
   (isl (mal_channel_router_init (Some config) True) \<longrightarrow>
      mal_channel_router_init (Some config) True = Inl MAL_INVALID_ARGS)"
  by (auto simp: mal_channel_router_init_def mal_channel_map_valid_def list_ex_upt_iff)

theorem mal_channel_router_init_error_iff_witness:
  "\<not> isl (mal_channel_router_init (Some duplicate_map_router_config) True) \<and>
   mal_channel_router_init (Some mono_pair_router_config) True = Inl MAL_INVALID_ARGS"
proof -
  have dup: "cr_onReadDeinterleaved duplicate_map_router_config \<noteq> None"
    "cr_channelsIn duplicate_map_router_config \<noteq> 0"
    "cr_channelsOut duplicate_map_router_config \<noteq> 0"
    "\<not> list_ex (\<lambda>i. cr_channelMapIn duplicate_map_router_config ! i = MAL_CHANNEL_MONO)
         [0..<unat (cr_channelsIn duplicate_map_router_config)]"
    "\<not> list_ex (\<lambda>i. cr_channelMapOut duplicate_map_router_config ! i = MAL_CHANNEL_MONO)
         [0..<unat (cr_channelsOut duplicate_map_router_config)]"
    by code_simp+
  have mono: "1 < cr_channelsIn mono_pair_router_config"
    "list_ex (\<lambda>i. cr_channelMapIn mono_pair_router_config ! i = MAL_CHANNEL_MONO)
         [0..<unat (cr_channelsIn mono_pair_router_config)]"
    by code_simp+
  from mal_channel_router_init_error_iff [of duplicate_map_router_config] dup
  have "\<not> isl (mal_channel_router_init (Some duplicate_map_router_config) True)"
    by (simp add: list_ex_upt_iff)
  moreover from mal_channel_router_init_error_iff [of mono_pair_router_config] mono
  have "mal_channel_router_init (Some mono_pair_router_config) True = Inl MAL_INVALID_ARGS"
    by (simp add: list_ex_upt_iff)
  ultimately show ?thesis by blast
qed

section \<open>The router as the identity\<close>

text \<open>
  For a valid map \<open>M\<close> of \<open>N \<le> 32\<close> channels on both sides the router is a passthrough,
  and a read of at most \<^verbatim>\<open>0xFFFFFFFF\<close> frames hands the request to the callback: it
  returns the callback's count and the callback's frames, channel by channel.
\<close>

lemma router_passthrough_identity:
  assumes init: "mal_channel_router_init
                   (Some (mal_channel_router_config_init N M N M mal_channel_mix_mode_simple
                            (Some onRead))) True = Inr r"
    and N: "unat N \<le> 32"
    and count: "frameCount \<le> 4294967295"
    and cb: "onRead st frameCount = ((n, data), st')"
  shows "mal_channel_router_read_deinterleaved (Some r) frameCount (Some out) st =
           (n, Some (deliver_frames out (\<lambda>c. 0) (unat N) n data), st')"
proof -
  let ?c = "mal_channel_router_config_init N M N M mal_channel_mix_mode_simple (Some onRead)"
  note D = mal_channel_router_init_InrD [OF init]
  from D(3) have "N \<noteq> 0"
    by (auto simp: mal_channel_map_valid_def mal_channel_router_config_init_def)
  with N have "router_isPassthrough ?c"
    by (simp add: router_isPassthrough_def mal_channel_map_equal_def
        mal_channel_router_config_init_def MAL_MAX_CHANNELS_def list_all_upt_iff)
  with D(1,2) show ?thesis
    using count cb
    by (simp add: mal_channel_router_read_deinterleaved_def Let_def
        mal_channel_router_config_init_def)
qed

text \<open>
  C3.  The claim is that a router initialised with the same valid map on both sides and
  simple mixing returns, for a read of any frame count, exactly the frames that its
  callback delivers.  For a frame count above \<^verbatim>\<open>0xFFFFFFFF\<close> the code does not: the loop of
  the passthrough branch is not followed by a \<^verbatim>\<open>return\<close>.  Here the mono router reads
  from a recording of two frames.  Asked for \<open>2\<^sup>3\<^sup>2 - 1\<close> frames it returns 2.  Asked for
  \<open>2\<^sup>3\<^sup>2\<close> frames it takes both frames from the recording and stores them, then enters
  the slower path, finds the recording empty and returns 0.
\<close>

theorem mal_channel_router_read_deinterleaved_large_frame_count:
  "fst (mal_channel_router_read_deinterleaved (Some mono_router) 4294967295
          (Some silence) [[1 / 2, 1 / 4]]) = 2 \<and>
   mal_channel_router_read_deinterleaved (Some mono_router) 4294967296
          (Some silence) [[1 / 2, 1 / 4]] =
     (0,
      Some (deliver_frames silence (\<lambda>c. 0) 1 2 (recording_data [[1 / 2, 1 / 4]] 2)),
      [[]])"
  by (simp add: mal_channel_router_read_deinterleaved_def mono_router_simps
      mono_router_config_simps recording_two_frames recording_empty
      router_passthrough_loop.simps [of _ _ _ 0] router_routing_loop.simps [of _ _ _ _ 0]
      mal_split_buffer_size_def MAL_MAX_CHANNELS_def)

section \<open>Linear SRC from 48000 to 24000\<close>

text \<open>
  C4, as claimed: with rates 48000 and 24000, one channel, fresh state and a source that
  supplies the samples 0, 1, \<dots>, 7 and then nothing, a single read that asks for at least
  4 frames returns 4 frames with the values 0, 2, 4, 6.  A read that asks for 4 frames
  returns 3 frames.
\<close>

theorem linear_read_of_four_frames:
  "frames_read (mal_src_read_deinterleaved__linear linear_src 4 silence ramp) 0 =
     Some (3, [0, 2, 4]) \<and>
   frames_read (mal_src_read_deinterleaved__linear linear_src 4 silence ramp) 0 \<noteq>
     Some (4, [0, 2, 4, 6])"
  using linear_read_ramp [of 4] by simp

text \<open>
  C4, amended.  In that scenario a single read that asks for at least 4 frames returns
  exactly 3 output frames, with the values 0, 2, 4: the last input sample is only used
  as the right neighbour for interpolation, so 7 input intervals at a ratio of 2 give 3
  frames.  (The values are exact.)
\<close>

theorem linear_read_at_least_four_frames:
  assumes "4 \<le> frameCount"
  shows "frames_read (mal_src_read_deinterleaved__linear linear_src frameCount silence ramp) 0 =
           Some (3, [0, 2, 4])"
  using assms by (rule linear_read_ramp)

theorem linear_read_at_least_four_frames_witness:
  "(4 :: nat) \<le> 8 \<and>
   frames_read (mal_src_read_deinterleaved__linear linear_src 8 silence ramp) 0 =
     Some (3, [0, 2, 4])"
  using linear_read_at_least_four_frames [of 8] by simp

section \<open>Conversion of f32 samples to u8\<close>

text \<open>
  C5, as claimed: without dither the sample 0.0 is converted to 128.  It is converted
  to 127.
\<close>

theorem f32_to_u8_of_zero:
  "map_option fst (mal_pcm_f32_to_u8__reference [0] mal_dither_mode_none 0) = Some [127] \<and>
   map_option fst (mal_pcm_f32_to_u8__reference [0] mal_dither_mode_none 0) \<noteq> Some [128]"
  by (simp add: mal_dither_f32_def f32_to_u8_samples)

text \<open>
  C5, amended.  With dither mode none, whatever the state of the random number
  generator, the conversion of f32 to u8 yields 255 for the sample +1.0, 0 for the
  sample -1.0 and 127 for the sample 0.0 (the product \<open>1 \<cdot> 127.5\<close> is truncated).
\<close>

theorem f32_to_u8_without_dither:
  "map_option fst (mal_pcm_f32_to_u8__reference [1, - 1, 0] mal_dither_mode_none g_malLCG) =
     Some [255, 0, 127]"
  by (simp add: mal_dither_f32_def f32_to_u8_samples)

section \<open>Lookups in the sinc table\<close>

text \<open>
  C10.  The claim is that, for every window width from 2 to 32, every lookup of
  \<^verbatim>\<open>mal_src_sinc__interpolation_factor\<close> reads the table at indices \<^verbatim>\<open>ixabs\<close> and
  \<^verbatim>\<open>ixabs+1\<close> below its length of 256.  With a window width of 32 it does not hold:
  for the rates 7 and 8 the factor is 7/8, which is the input time of the second output
  sample; the first tap of that sample has \<open>w = 1 - 32 = - 31\<close>, so \<open>x = 7/8 + 31\<close>,
  \<^verbatim>\<open>ixabs\<close> is 255 and \<^verbatim>\<open>table[ixabs+1]\<close> is \<^verbatim>\<open>table[256]\<close>, one past the end of the
  array.  In the model that read is undefined, whatever the table and the input hold.
\<close>

theorem sinc_lookup_past_the_table:
  "f32_div (f32_of_uint32 7) (f32_of_uint32 8) = Some (7 / 8) \<and>
   mal_src_sinc__ixabs (f32_sub (7 / 8) (f32 (- 31))) = Some (255, 0) \<and>
   sinc_table_length = 256 \<and>
   sinc_table_read table (255 + 1) = None \<and>
   mal_src_sinc__interpolation_factor table (f32_sub (7 / 8) (f32 (- 31))) =
     None \<and>
   mal_src_sinc__output_sample table 32 input (7 / 8) = None"
proof -
  have factor: "f32_div (f32_of_uint32 7) (f32_of_uint32 8) = Some (7 / 8)"
    by code_simp
  have len: "sinc_table_length = 256"
    by (simp add: sinc_table_length_def MAL_SRC_SINC_MAX_WINDOW_WIDTH_def
        MAL_SRC_SINC_LOOKUP_TABLE_RESOLUTION_def)
  have past: "sinc_table_read table (255 + 1) = None"
    by (simp add: sinc_table_read_def len)
  have first_tap:
    "mal_src_sinc__interpolation_factor table
       (f32_sub (7 / 8) (f32 (- 31))) = None"
    using past
    by (simp add: mal_src_sinc__interpolation_factor_def sinc_first_tap(1)
        split: option.split)
  have taps: "[1..<2 * 32] = 1 # [2..<64]"
    by (simp add: upt_conv_Cons)
  have "mal_src_sinc__output_sample table 32 input (7 / 8) = None"
    unfolding mal_src_sinc__output_sample_def Let_def taps
    using first_tap by (simp add: sinc_first_tap(2,3))
  with factor sinc_first_tap(1) len past first_tap show ?thesis
    by blast
qed

end
